theory Spec2Isabelle
  imports Main "HOL-Library.Word" "HOL-Library.Signed_Division"
begin

unbundle bit_operations_syntax

section \<open>The C platform\<close>

text \<open>
  \<^verbatim>\<open>adc128s052-tool.c\<close> is a single C file.  Three things it does depend on the
  implementation it is compiled for, and the model keeps them as parameters: the
  host byte order (the buffers are walked through an \<^verbatim>\<open>unsigned short *\<close>), the
  signedness of plain \<^verbatim>\<open>char\<close> (the channel digits are read from a \<^verbatim>\<open>char *\<close>), and
  the width of \<^verbatim>\<open>size_t\<close> (\<^verbatim>\<open>strlen\<close> and \<^verbatim>\<open>malloc\<close>).  \<^verbatim>\<open>int\<close> is 32 bits wide
  throughout.
\<close>

datatype data_model = ILP32 | LP64

record platform =
  big_endian :: bool
  char_signed :: bool
  data_model :: data_model

fun size_bits :: "data_model \<Rightarrow> nat" where
  "size_bits ILP32 = 32"
| "size_bits LP64 = 64"

text \<open>Conversion to \<^verbatim>\<open>size_t\<close>: reduction modulo \<open>2 ^ size_bits\<close>.\<close>

definition to_size :: "platform \<Rightarrow> int \<Rightarrow> int" where
  "to_size p x = x mod 2 ^ size_bits (data_model p)"

text \<open>
  Conversion to \<^verbatim>\<open>int\<close>, and \<^verbatim>\<open>int\<close> arithmetic that leaves the range: two's
  complement wrap-around into \<open>[-2^31, 2^31)\<close>, as GCC and Clang define the
  conversion.
\<close>

definition to_int32 :: "int \<Rightarrow> int" where
  "to_int32 x = (x + 2147483648) mod 4294967296 - 2147483648"

text \<open>The value of \<^verbatim>\<open>channels[j]\<close> after integer promotion.\<close>

definition char_value :: "platform \<Rightarrow> char \<Rightarrow> int" where
  "char_value p c =
     (if char_signed p \<and> 128 \<le> (of_char c :: int) then of_char c - 256 else of_char c)"

section \<open>Block size\<close>

text \<open>
  \<^verbatim>\<open>int len = strlen(channels) * 2 * samples + 2;\<close>
  The right-hand side is evaluated in \<^verbatim>\<open>size_t\<close> (\<^verbatim>\<open>strlen\<close> returns one, and the
  \<^verbatim>\<open>int\<close> operands are converted to it); the result is converted to \<^verbatim>\<open>int\<close>.
\<close>

definition block_len :: "platform \<Rightarrow> string \<Rightarrow> int \<Rightarrow> int" where
  "block_len p channels samples =
     to_int32
       (to_size p
          (to_size p (to_size p (int (length channels) * 2) * to_size p samples) + 2))"

section \<open>Buffers and 16-bit accesses\<close>

type_synonym byte = "8 word"

datatype fault = BufferOverrun | StatIndexOutOfRange | DivideByZero

text \<open>
  \<^verbatim>\<open>malloc(len)\<close>: the \<^verbatim>\<open>int\<close> argument is converted to \<^verbatim>\<open>size_t\<close>.  The allocator
  either returns \<^verbatim>\<open>NULL\<close> (\<open>None\<close>) or a block of that many bytes whose contents
  are whatever the heap held (\<open>Some junk\<close>); the block is not cleared.
\<close>

definition malloc :: "platform \<Rightarrow> (nat \<Rightarrow> byte) option \<Rightarrow> int \<Rightarrow> byte list option" where
  "malloc p heap len =
     (case heap of
        None \<Rightarrow> None
      | Some junk \<Rightarrow> Some (map junk [0..<nat (to_size p len)]))"

text \<open>
  A 16-bit object in memory, in host byte order: what \<^verbatim>\<open>*ptr\<close> reads and writes
  through an \<^verbatim>\<open>unsigned short *\<close>.
\<close>

definition load16 :: "platform \<Rightarrow> byte \<Rightarrow> byte \<Rightarrow> 16 word" where
  "load16 p b0 b1 =
     (if big_endian p then push_bit 8 (ucast b0) OR ucast b1
      else push_bit 8 (ucast b1) OR ucast b0)"

definition store16 :: "platform \<Rightarrow> 16 word \<Rightarrow> byte list" where
  "store16 p w =
     (if big_endian p then [ucast (drop_bit 8 w), ucast w]
      else [ucast w, ucast (drop_bit 8 w)])"

text \<open>Reading and writing the 16-bit object at byte offset \<open>off\<close> of a buffer.\<close>

definition get16 :: "platform \<Rightarrow> byte list \<Rightarrow> nat \<Rightarrow> fault + 16 word" where
  "get16 p buf off =
     (if off + 2 \<le> length buf then Inr (load16 p (buf ! off) (buf ! (off + 1)))
      else Inl BufferOverrun)"

definition put16 :: "platform \<Rightarrow> byte list \<Rightarrow> nat \<Rightarrow> 16 word \<Rightarrow> fault + byte list" where
  "put16 p buf off w =
     (if off + 2 \<le> length buf
      then Inr (buf[off := store16 p w ! 0, off + 1 := store16 p w ! 1])
      else Inl BufferOverrun)"

text \<open>\<^verbatim>\<open>__bswap_16\<close> of \<^verbatim>\<open><byteswap.h>\<close>: exchanges the two bytes, on every host.\<close>

definition bswap_16 :: "16 word \<Rightarrow> 16 word" where
  "bswap_16 x = (drop_bit 8 x AND 0xff) OR push_bit 8 (x AND 0xff)"

text \<open>\<^verbatim>\<open>uint16_t val = __bswap_16(*ptr++);\<close> on the two bytes under \<^verbatim>\<open>ptr\<close>.\<close>

definition decode_sample :: "platform \<Rightarrow> byte \<Rightarrow> byte \<Rightarrow> 16 word" where
  "decode_sample p b0 b1 = bswap_16 (load16 p b0 b1)"

section \<open>Filling the transmit block\<close>

text \<open>
  Lines 178 to 182.
  \<^verbatim>\<open>*ptr++ = (channels[j] - 0x30) << 3;\<close>
  The \<^verbatim>\<open>int\<close> on the right is converted to \<^verbatim>\<open>unsigned short\<close> by the store.  A
  negative left operand is shifted as the two's complement value it is.
\<close>

definition command_word :: "platform \<Rightarrow> char \<Rightarrow> 16 word" where
  "command_word p c = word_of_int (push_bit 3 (char_value p c - 0x30))"

text \<open>
  The cursor \<^verbatim>\<open>ptr\<close> is kept as its byte offset from the start of the buffer.
  The inner loop \<^verbatim>\<open>for (j = 0; j < strlen(channels); j++)\<close> visits the characters
  of the string in order.
\<close>

fun fill_pass :: "platform \<Rightarrow> string \<Rightarrow> byte list \<times> nat \<Rightarrow> fault + byte list \<times> nat" where
  "fill_pass p [] (buf, ptr) = Inr (buf, ptr)"
| "fill_pass p (c # cs) (buf, ptr) =
     (case put16 p buf ptr (command_word p c) of
        Inl f \<Rightarrow> Inl f
      | Inr buf' \<Rightarrow> fill_pass p cs (buf', ptr + 2))"

text \<open>The outer loop \<^verbatim>\<open>for (int i = 0; i < samples; i++)\<close>.\<close>

function fill_tx ::
  "platform \<Rightarrow> string \<Rightarrow> int \<Rightarrow> int \<Rightarrow> byte list \<times> nat \<Rightarrow> fault + byte list \<times> nat" where
  "fill_tx p channels i samples s =
     (if i < samples
      then (case fill_pass p channels s of
              Inl f \<Rightarrow> Inl f
            | Inr s' \<Rightarrow> fill_tx p channels (i + 1) samples s')
      else Inr s)"
  by pat_completeness auto
termination
  by (relation "measure (\<lambda>(p, channels, i, samples, s). nat (samples - i))") auto

section \<open>Statistics\<close>

text \<open>
  \<^verbatim>\<open>uint64_t sum[16]; uint16_t min[16]; uint16_t max[16];\<close>
  The three arrays are automatic variables without initialiser: their contents
  at entry are whatever the stack held.
\<close>

record stat_arrays =
  sum_arr :: "64 word list"
  min_arr :: "16 word list"
  max_arr :: "16 word list"

text \<open>\<^verbatim>\<open>int ch = (channels[j] - 0x30) % 16;\<close> with C's truncating remainder.\<close>

definition chan_index :: "platform \<Rightarrow> char \<Rightarrow> int" where
  "chan_index p c = (char_value p c - 0x30) smod 16"

text \<open>
  Lines 209 to 225: the body of the inner statistics loop, for one slot of the
  plan.  \<open>first\<close> is the test \<^verbatim>\<open>i == 0\<close>; the cursor \<^verbatim>\<open>ptr\<close> is a byte offset into the
  receive block.  A read past the block and an index outside the 16 elements
  are faults.
\<close>

definition stat_slot ::
  "platform \<Rightarrow> byte list \<Rightarrow> bool \<Rightarrow> char \<Rightarrow> stat_arrays \<times> nat \<Rightarrow> fault + stat_arrays \<times> nat" where
  "stat_slot p rx first c s =
     (case s of (st, ptr) \<Rightarrow>
        let ch = chan_index p c in
        case get16 p rx ptr of
          Inl f \<Rightarrow> Inl f
        | Inr w \<Rightarrow>
            let val = bswap_16 w in
            if ch < 0 \<or> 16 \<le> ch then Inl StatIndexOutOfRange
            else
              let k = nat ch;
                  st1 = (if first
                         then st\<lparr>min_arr := (min_arr st)[k := 0xffff],
                                 max_arr := (max_arr st)[k := 0],
                                 sum_arr := (sum_arr st)[k := 0]\<rparr>
                         else st);
                  st2 = (if val < min_arr st1 ! k
                         then st1\<lparr>min_arr := (min_arr st1)[k := val]\<rparr> else st1);
                  st3 = (if val > max_arr st2 ! k
                         then st2\<lparr>max_arr := (max_arr st2)[k := val]\<rparr> else st2);
                  st4 = st3\<lparr>sum_arr := (sum_arr st3)[k := sum_arr st3 ! k + ucast val]\<rparr>
              in Inr (st4, ptr + 2))"

fun stat_pass ::
  "platform \<Rightarrow> byte list \<Rightarrow> bool \<Rightarrow> string \<Rightarrow> stat_arrays \<times> nat \<Rightarrow> fault + stat_arrays \<times> nat" where
  "stat_pass p rx first [] s = Inr s"
| "stat_pass p rx first (c # cs) s =
     (case stat_slot p rx first c s of
        Inl f \<Rightarrow> Inl f
      | Inr s' \<Rightarrow> stat_pass p rx first cs s')"

function stat_loop ::
  "platform \<Rightarrow> byte list \<Rightarrow> string \<Rightarrow> int \<Rightarrow> int \<Rightarrow> stat_arrays \<times> nat \<Rightarrow> fault + stat_arrays \<times> nat" where
  "stat_loop p rx channels i samples s =
     (if i < samples
      then (case stat_pass p rx (i = 0) channels s of
              Inl f \<Rightarrow> Inl f
            | Inr s' \<Rightarrow> stat_loop p rx channels (i + 1) samples s')
      else Inr s)"
  by pat_completeness auto
termination
  by (relation "measure (\<lambda>(p, rx, channels, i, samples, s). nat (samples - i))") auto

text \<open>
  Lines 205 to 226: \<^verbatim>\<open>ptr = (unsigned short*) (tr.rx_buf + 2);\<close> followed by the
  two nested loops.
\<close>

definition calc_statistics ::
  "platform \<Rightarrow> byte list \<Rightarrow> string \<Rightarrow> int \<Rightarrow> stat_arrays \<Rightarrow> fault + stat_arrays" where
  "calc_statistics p rx channels samples st0 =
     (case stat_loop p rx channels 0 samples (st0, 2) of
        Inl f \<Rightarrow> Inl f
      | Inr (st, ptr) \<Rightarrow> Inr st)"

section \<open>Console output and the report\<close>

datatype event =
    PrintSpeed "32 word"
  | PrintStart int nat int
  | SpiMessage "32 word" "byte list"
  | PrintRate
  | Statistics int "16 word" "64 word" "16 word" "64 word" "64 word"
  | OpenOutput string
  | WriteOutput "byte list" int
  | PrintWritten string

text \<open>
  Lines 229 to 235.  One \<^verbatim>\<open>printf("Statistics ch[%d]: ...")\<close>.  The arguments are, in order, \<^verbatim>\<open>ch\<close>,
  \<^verbatim>\<open>min[ch]\<close>, \<^verbatim>\<open>sum[ch] / samples\<close>, \<^verbatim>\<open>max[ch]\<close>, \<^verbatim>\<open>sum[ch] / samples - min[ch]\<close> and
  \<^verbatim>\<open>max[ch] - sum[ch] / samples\<close>.  \<^verbatim>\<open>samples\<close> is converted to \<^verbatim>\<open>uint64_t\<close> for the
  division, which is unsigned and traps on a zero divisor.
\<close>

definition report_line :: "platform \<Rightarrow> int \<Rightarrow> stat_arrays \<Rightarrow> char \<Rightarrow> fault + event" where
  "report_line p samples st c =
     (let ch = chan_index p c in
      if ch < 0 \<or> 16 \<le> ch then Inl StatIndexOutOfRange
      else if (word_of_int samples :: 64 word) = 0 then Inl DivideByZero
      else
        let k = nat ch;
            avg = sum_arr st ! k div word_of_int samples
        in Inr (Statistics ch (min_arr st ! k) avg (max_arr st ! k)
                  (avg - ucast (min_arr st ! k)) (ucast (max_arr st ! k) - avg)))"

fun report :: "platform \<Rightarrow> int \<Rightarrow> stat_arrays \<Rightarrow> string \<Rightarrow> event list \<times> fault option" where
  "report p samples st [] = ([], None)"
| "report p samples st (c # cs) =
     (case report_line p samples st c of
        Inl f \<Rightarrow> ([], Some f)
      | Inr ev \<Rightarrow> (case report p samples st cs of (evs, r) \<Rightarrow> (ev # evs, r)))"

text \<open>
  Lines 203 to 235 as a whole: the statistics loops on the received block, then
  the report.  The result is the lines printed and the fault, if any, that ended
  the program.
\<close>

definition statistics_report ::
  "platform \<Rightarrow> byte list \<Rightarrow> string \<Rightarrow> int \<Rightarrow> stat_arrays \<Rightarrow> event list \<times> fault option" where
  "statistics_report p rx channels samples st0 =
     (case calc_statistics p rx channels samples st0 of
        Inl f \<Rightarrow> ([], Some f)
      | Inr st \<Rightarrow> report p samples st channels)"

text \<open>The channel a printed statistics line is about.\<close>

fun reported_channel :: "event \<Rightarrow> int option" where
  "reported_channel (Statistics ch mn avg mx dmin dmax) = Some ch"
| "reported_channel _ = None"

section \<open>Command line\<close>

text \<open>The file-scope variables that \<^verbatim>\<open>parse_opts\<close> sets, with their initialisers.\<close>

record globals =
  g_device :: string
  g_channels :: string
  g_output_file :: "string option"
  g_speed :: "32 word"
  g_samples :: int

definition initial_globals :: globals where
  "initial_globals =
     \<lparr>g_device = ''/dev/spidev1.1'', g_channels = ''01234567'', g_output_file = None,
      g_speed = 400000, g_samples = 1\<rparr>"

text \<open>
  \<^verbatim>\<open>parse_opts\<close> loops over what \<^verbatim>\<open>getopt_long\<close> returns: the option character
  and \<^verbatim>\<open>optarg\<close>, until \<^verbatim>\<open>-1\<close> (the end of the list).  Any other character reaches
  \<^verbatim>\<open>default: usage(argv[0])\<close>, which ends in \<^verbatim>\<open>exit(1)\<close>.  \<^verbatim>\<open>atoi\<close> is the C
  library's and is a parameter; its result is an \<^verbatim>\<open>int\<close>.
\<close>

fun parse_opts :: "(string \<Rightarrow> int) \<Rightarrow> (char \<times> string) list \<Rightarrow> globals \<Rightarrow> int + globals" where
  "parse_opts atoi [] g = Inr g"
| "parse_opts atoi ((c, optarg) # rest) g =
     (if c = CHR ''D'' then parse_opts atoi rest (g\<lparr>g_device := optarg\<rparr>)
      else if c = CHR ''C'' then parse_opts atoi rest (g\<lparr>g_channels := optarg\<rparr>)
      else if c = CHR ''s'' then parse_opts atoi rest (g\<lparr>g_speed := word_of_int (atoi optarg)\<rparr>)
      else if c = CHR ''o'' then parse_opts atoi rest (g\<lparr>g_output_file := Some optarg\<rparr>)
      else if c = CHR ''S'' then parse_opts atoi rest (g\<lparr>g_samples := to_int32 (atoi optarg)\<rparr>)
      else Inl 1)"

section \<open>The program\<close>

text \<open>
  Everything \<^verbatim>\<open>main\<close> obtains from outside: the command line, the results of the
  system calls, the contents of uninitialised memory, and the received block.
\<close>

record env =
  getopt_results :: "(char \<times> string) list"
  atoi :: "string \<Rightarrow> int"
  stack_sum :: "nat \<Rightarrow> 64 word"
  stack_min :: "nat \<Rightarrow> 16 word"
  stack_max :: "nat \<Rightarrow> 16 word"
  open_device :: int
  ioctl_wr_mode :: int
  ioctl_rd_mode :: int
  ioctl_wr_speed :: int
  ioctl_rd_speed :: int
  negotiated_speed :: "32 word"
  tx_heap :: "(nat \<Rightarrow> byte) option"
  rx_heap :: "(nat \<Rightarrow> byte) option"
  ioctl_message :: int
  received :: "nat \<Rightarrow> byte"
  elapsed :: "64 word"
  open_output :: int
  write_result :: int

datatype abort_message =
    CantOpenDevice
  | CantSetSpiMode
  | CantGetSpiMode
  | CantSetMaxSpeed
  | CantGetMaxSpeed
  | CannotAllocateTxBuf
  | CannotAllocateRxBuf
  | CantSendSpiMessage
  | CouldNotOpenOutputFile
  | NotAllBytesWritten

datatype outcome = Exit int | Abort abort_message | Crash fault | Return int

definition uninitialised_arrays :: "env \<Rightarrow> stat_arrays" where
  "uninitialised_arrays e =
     \<lparr>sum_arr = map (stack_sum e) [0..<16],
      min_arr = map (stack_min e) [0..<16],
      max_arr = map (stack_max e) [0..<16]\<rparr>"

text \<open>Lines 116 to 152: opening the device, mode and speed.\<close>

definition device_setup :: "env \<Rightarrow> abort_message + 32 word" where
  "device_setup e =
     (if open_device e < 0 then Inl CantOpenDevice
      else if ioctl_wr_mode e = - 1 then Inl CantSetSpiMode
      else if ioctl_rd_mode e = - 1 then Inl CantGetSpiMode
      else if ioctl_wr_speed e = - 1 then Inl CantSetMaxSpeed
      else if ioctl_rd_speed e = - 1 then Inl CantGetMaxSpeed
      else Inr (negotiated_speed e))"

text \<open>
  Lines 240 to 260: the optional output file, and \<^verbatim>\<open>return ret\<close>.  \<open>ret\<close> is the
  value \<^verbatim>\<open>ret\<close> holds when line 240 is reached.  \<^verbatim>\<open>len-2\<close> is \<^verbatim>\<open>int\<close> arithmetic; as
  the count of \<^verbatim>\<open>write\<close> it is converted to \<^verbatim>\<open>size_t\<close>.
\<close>

definition persist ::
  "platform \<Rightarrow> env \<Rightarrow> globals \<Rightarrow> int \<Rightarrow> byte list \<Rightarrow> int \<Rightarrow> event list \<Rightarrow> event list \<times> outcome" where
  "persist p e g len rx ret evs =
     (case g_output_file g of
        None \<Rightarrow> (evs, Return ret)
      | Some name \<Rightarrow>
          if open_output e < 0 then (evs @ [OpenOutput name], Abort CouldNotOpenOutputFile)
          else
            let evs' = evs @ [OpenOutput name,
                              WriteOutput (drop 2 rx) (to_size p (to_int32 (len - 2)))]
            in if write_result e \<noteq> to_int32 (len - 2) then (evs', Abort NotAllBytesWritten)
               else (evs' @ [PrintWritten name], Return (write_result e)))"

text \<open>Lines 203 to 235, then the output stage.\<close>

definition process ::
  "platform \<Rightarrow> env \<Rightarrow> globals \<Rightarrow> int \<Rightarrow> byte list \<Rightarrow> event list \<Rightarrow> event list \<times> outcome" where
  "process p e g len rx evs =
     (case statistics_report p rx (g_channels g) (g_samples g) (uninitialised_arrays e) of
        (lines, Some f) \<Rightarrow> (evs @ lines, Crash f)
      | (lines, None) \<Rightarrow> persist p e g len rx (ioctl_message e) (evs @ lines))"

text \<open>
  Lines 157 to 200: the block size, the two buffers, the transmit block, the
  exchange and its timing.  The rate is computed by a division by \<^verbatim>\<open>interval\<close>
  in \<^verbatim>\<open>uint64_t\<close>; the printed floating-point figures are not modelled.
\<close>

definition acquire :: "platform \<Rightarrow> env \<Rightarrow> globals \<Rightarrow> event list \<times> outcome" where
  "acquire p e g =
     (let len = block_len p (g_channels g) (g_samples g);
          ev1 = [PrintSpeed (g_speed g)]
      in case malloc p (tx_heap e) len of
           None \<Rightarrow> (ev1, Abort CannotAllocateTxBuf)
         | Some tx0 \<Rightarrow>
         (case malloc p (rx_heap e) len of
           None \<Rightarrow> (ev1, Abort CannotAllocateRxBuf)
         | Some rx0 \<Rightarrow>
         (case fill_tx p (g_channels g) 0 (g_samples g) (tx0, 0) of
           Inl f \<Rightarrow> (ev1, Crash f)
         | Inr (tx, ptr) \<Rightarrow>
             let ev2 = ev1 @ [PrintStart len (length (g_channels g)) (g_samples g),
                              SpiMessage (word_of_int len) tx]
             in if ioctl_message e < 1 then (ev2, Abort CantSendSpiMessage)
                else if elapsed e = 0 then (ev2, Crash DivideByZero)
                else process p e g len (map (received e) [0..<length rx0]) (ev2 @ [PrintRate]))))"

definition main :: "platform \<Rightarrow> env \<Rightarrow> event list \<times> outcome" where
  "main p e =
     (case parse_opts (atoi e) (getopt_results e) initial_globals of
        Inl code \<Rightarrow> ([], Exit code)
      | Inr g \<Rightarrow>
          (case device_setup e of
             Inl a \<Rightarrow> ([], Abort a)
           | Inr speed \<Rightarrow> acquire p e (g\<lparr>g_speed := speed\<rparr>)))"

text \<open>
  What the parent process observes of the value \<^verbatim>\<open>main\<close> returns: \<^verbatim>\<open>return ret\<close> from
  \<^verbatim>\<open>main\<close> is \<^verbatim>\<open>exit(ret)\<close>, and on Linux the exit status is the low eight bits of
  that value.
\<close>

definition exit_status :: "int \<Rightarrow> int" where
  "exit_status r = r mod 256"

section \<open>Reference platforms and inputs\<close>

text \<open>
  Three implementations used in the closed examples: 32-bit ARM Linux (little
  endian, plain \<^verbatim>\<open>char\<close> unsigned), x86-64 Linux (little endian, plain \<^verbatim>\<open>char\<close>
  signed) and a 32-bit big-endian host.
\<close>

definition arm_linux :: platform where
  "arm_linux = \<lparr>big_endian = False, char_signed = False, data_model = ILP32\<rparr>"

definition x86_64_linux :: platform where
  "x86_64_linux = \<lparr>big_endian = False, char_signed = True, data_model = LP64\<rparr>"

definition big_endian_host :: platform where
  "big_endian_host = \<lparr>big_endian = True, char_signed = False, data_model = ILP32\<rparr>"

text \<open>
  A reference \<^verbatim>\<open>atoi\<close> for the closed examples: optional white space, an optional
  sign, then decimal digits up to the first other character, as ISO C describes
  it.  (For a number outside the range of \<^verbatim>\<open>int\<close> the C behaviour is undefined;
  the examples do not go there.)
\<close>

definition is_space :: "char \<Rightarrow> bool" where
  "is_space c \<longleftrightarrow> (of_char c :: nat) = 32 \<or> (9 \<le> (of_char c :: nat) \<and> (of_char c :: nat) \<le> 13)"

definition is_digit :: "char \<Rightarrow> bool" where
  "is_digit c \<longleftrightarrow> 48 \<le> (of_char c :: nat) \<and> (of_char c :: nat) \<le> 57"

fun atoi_digits :: "int \<Rightarrow> string \<Rightarrow> int" where
  "atoi_digits a [] = a"
| "atoi_digits a (c # cs) =
     (if is_digit c then atoi_digits (a * 10 + (of_char c - 48)) cs else a)"

fun c_atoi :: "string \<Rightarrow> int" where
  "c_atoi [] = 0"
| "c_atoi (c # cs) =
     (if is_space c then c_atoi cs
      else if c = CHR ''-'' then - atoi_digits 0 cs
      else if c = CHR ''+'' then atoi_digits 0 cs
      else atoi_digits 0 (c # cs))"

text \<open>Which events are statistics lines, and which touch the output file.\<close>

fun is_statistics :: "event \<Rightarrow> bool" where
  "is_statistics (Statistics ch mn avg mx dmin dmax) = True"
| "is_statistics _ = False"

fun is_file_output :: "event \<Rightarrow> bool" where
  "is_file_output (OpenOutput name) = True"
| "is_file_output (WriteOutput bytes count) = True"
| "is_file_output (PrintWritten name) = True"
| "is_file_output _ = False"

text \<open>
  An environment for the closed examples: no options on the command line, every
  system call succeeds, the stack holds zeros, the heap holds \<open>0xAA\<close>, the device
  answers with zeros, and the exchange and the write report the full counts
  for the default plan (18 and 16 bytes).
\<close>

definition example_env :: env where
  "example_env =
     \<lparr>getopt_results = [], atoi = c_atoi,
      stack_sum = (\<lambda>k. 0), stack_min = (\<lambda>k. 0), stack_max = (\<lambda>k. 0),
      open_device = 3, ioctl_wr_mode = 0, ioctl_rd_mode = 0, ioctl_wr_speed = 0,
      ioctl_rd_speed = 0, negotiated_speed = 400000,
      tx_heap = Some (\<lambda>k. 0xAA), rx_heap = Some (\<lambda>k. 0xAA),
      ioctl_message = 18, received = (\<lambda>k. 0), elapsed = 1000, open_output = 4,
      write_result = 16\<rparr>"

text \<open>
  Variations of it: \<^verbatim>\<open>-C "" -S 0\<close> with a 2-byte exchange; an output file; an
  output file with an exchange that returns 0; an output file with an exchange
  that returns 5 of the 18 bytes.
\<close>

definition env_empty_plan :: env where
  "env_empty_plan =
     example_env\<lparr>getopt_results := [(CHR ''C'', ''''), (CHR ''S'', ''0'')], ioctl_message := 2\<rparr>"

definition env_output_file :: env where
  "env_output_file = example_env\<lparr>getopt_results := [(CHR ''o'', ''out.bin'')]\<rparr>"

definition env_failed_exchange :: env where
  "env_failed_exchange = env_output_file\<lparr>ioctl_message := 0\<rparr>"

definition env_short_exchange :: env where
  "env_short_exchange = env_output_file\<lparr>ioctl_message := 5\<rparr>"

text \<open>
  More command lines: \<^verbatim>\<open>-C x -S 0\<close> (a character that is not a digit, no sample);
  \<^verbatim>\<open>-C x -S 1\<close>; \<^verbatim>\<open>-C 0 -S 127\<close>, a block of 256 bytes; and
  \<^verbatim>\<open>-C 01 -S -1073741824 -o out.bin\<close>, where the length wraps to 2 and the write of
  0 bytes returns 0.
\<close>

definition env_zero_count :: env where
  "env_zero_count =
     example_env\<lparr>getopt_results := [(CHR ''C'', ''x''), (CHR ''S'', ''0'')], ioctl_message := 2\<rparr>"

definition env_nondigit_plan :: env where
  "env_nondigit_plan =
     example_env\<lparr>getopt_results := [(CHR ''C'', ''x''), (CHR ''S'', ''1'')], ioctl_message := 4\<rparr>"

definition env_256 :: env where
  "env_256 =
     example_env\<lparr>getopt_results := [(CHR ''C'', ''0''), (CHR ''S'', ''127'')], ioctl_message := 256\<rparr>"

definition env_negative_count :: env where
  "env_negative_count =
     example_env\<lparr>getopt_results := [(CHR ''C'', ''01''), (CHR ''S'', ''-1073741824''),
                                     (CHR ''o'', ''out.bin'')],
                  ioctl_message := 2, write_result := 0\<rparr>"


declare fill_tx.simps [simp del]
declare stat_loop.simps [simp del]

section \<open>Integer conversions\<close>

lemma to_size_id: "0 \<le> x \<Longrightarrow> x < 4294967296 \<Longrightarrow> to_size p x = x"
  by (cases "data_model p") (simp_all add: to_size_def)

lemma to_int32_id: "- 2147483648 \<le> x \<Longrightarrow> x < 2147483648 \<Longrightarrow> to_int32 x = x"
  by (simp add: to_int32_def)

lemma to_int32_range: "- 2147483648 \<le> to_int32 x \<and> to_int32 x < 2147483648"
  by (simp add: to_int32_def)

section \<open>The block size (C7)\<close>

lemma block_len_fits:
  assumes "1 \<le> samples"
    and "int (length channels) * 2 * samples + 2 < 2147483648"
  shows "block_len p channels samples = int (length channels) * 2 * samples + 2"
proof -
  define L where "L = int (length channels) * 2"
  have L0: "0 \<le> L" by (simp add: L_def)
  have prod0: "0 \<le> L * samples" using L0 assms(1) by simp
  have prod: "L * samples + 2 < 2147483648" using assms(2) by (simp add: L_def)
  have c: "to_size p (L * samples) = L * samples"
    using prod0 prod by (intro to_size_id) linarith+
  have d: "to_size p (L * samples + 2) = L * samples + 2"
    using prod0 prod by (intro to_size_id) linarith+
  have e: "to_int32 (L * samples + 2) = L * samples + 2"
    using prod0 prod by (intro to_int32_id) linarith+
  have ab: "to_size p (to_size p L * to_size p samples) = L * samples"
  proof (cases "L = 0")
    case True
    then show ?thesis by (simp add: to_size_def)
  next
    case False
    then have L1: "1 \<le> L" using L0 by linarith
    have "1 * samples \<le> L * samples"
      using L1 assms(1) by (intro mult_right_mono) linarith+
    then have n: "samples < 4294967296" using prod by linarith
    have "L * 1 \<le> L * samples"
      using L0 assms(1) by (intro mult_left_mono) linarith+
    then have l: "L < 4294967296" using prod by linarith
    have "to_size p L = L" using L0 l by (rule to_size_id)
    moreover have "to_size p samples = samples"
      using assms(1) n by (intro to_size_id) linarith+
    ultimately show ?thesis using c by simp
  qed
  show ?thesis
    unfolding block_len_def L_def [symmetric] ab d e ..
qed

text \<open>
  C7, as amended.  For a channel string of length \<open>L\<close> and a sample count
  \<open>N \<ge> 1\<close> the computed block length is \<open>L * 2 * N + 2\<close>, provided that value
  fits the 32-bit \<^verbatim>\<open>int\<close> that \<^verbatim>\<open>len\<close> is declared as.
\<close>

theorem block_len_exact:
  assumes "1 \<le> samples"
    and "int (length channels) * 2 * samples + 2 < 2147483648"
  shows "block_len p channels samples = int (length channels) * 2 * samples + 2"
  using assms by (rule block_len_fits)

text \<open>Scenario A of the specification: four channels, two samples, 18 bytes.\<close>

theorem block_len_exact_witness:
  "(1::int) \<le> 2 \<and> int (length ''0123'') * 2 * 2 + 2 < 2147483648
   \<and> block_len arm_linux ''0123'' 2 = 18"
  using block_len_exact [of 2 "''0123''" arm_linux] by simp

text \<open>
  C7 as stated fails where the product leaves the range of \<^verbatim>\<open>int\<close>: one channel
  and \<open>2^30\<close> samples give a negative length, on either data model.
\<close>

theorem block_len_overflow_counterexample:
  "block_len arm_linux ''0'' 1073741824 = - 2147483646
   \<and> block_len x86_64_linux ''0'' 1073741824 = - 2147483646
   \<and> block_len arm_linux ''0'' 1073741824 \<noteq> int (length ''0'') * 2 * 1073741824 + 2"
  by (simp add: block_len_def to_size_def to_int32_def arm_linux_def x86_64_linux_def)

section \<open>The sample decoder (C5)\<close>

lemma bswap_16_alt: "bswap_16 x = drop_bit 8 x OR push_bit 8 (take_bit 8 x)"
proof -
  have m: "(0xff :: 16 word) = mask 8" by (simp add: mask_eq_exp_minus_1)
  have "drop_bit 8 x AND mask 8 = drop_bit 8 x"
    by (rule bit_word_eqI) (auto simp add: bit_simps dest: bit_imp_le_length)
  then show ?thesis
    by (simp add: bswap_16_def m take_bit_eq_mask)
qed

text \<open>
  C5, as amended.  On a little-endian host the decoder reads the two received
  bytes as a big-endian word (first byte high); in particular the bytes
  \<open>0x01, 0x02\<close> decode to \<open>0x0102\<close>.
\<close>

theorem decode_sample_little_endian_host:
  assumes "\<not> big_endian p"
  shows "decode_sample p b0 b1 = push_bit 8 (ucast b0) OR ucast b1
         \<and> decode_sample p 0x01 0x02 = 0x0102"
proof
  show "decode_sample p b0 b1 = push_bit 8 (ucast b0) OR ucast b1"
    using assms
    apply (simp add: decode_sample_def load16_def bswap_16_alt)
    apply (rule bit_word_eqI)
    apply (auto simp add: bit_simps dest: bit_imp_le_length)
    done
  show "decode_sample p 0x01 0x02 = 0x0102"
    using assms by (simp add: decode_sample_def load16_def bswap_16_def)
qed

theorem decode_sample_little_endian_host_witness:
  "\<not> big_endian arm_linux \<and> decode_sample arm_linux 0x12 0x34 = 0x1234
   \<and> decode_sample arm_linux 0x01 0x02 = 0x0102"
  using decode_sample_little_endian_host [of arm_linux "0x12" "0x34"]
  by (simp add: arm_linux_def)

text \<open>
  C5 as stated fails on a big-endian host: \<^verbatim>\<open>*ptr\<close> already reads \<open>0x0102\<close> there
  and the unconditional \<^verbatim>\<open>__bswap_16\<close> turns it into \<open>0x0201\<close>.
\<close>

theorem decode_sample_big_endian_host_counterexample:
  "decode_sample big_endian_host 0x01 0x02 = 0x0201
   \<and> decode_sample big_endian_host 0x01 0x02 \<noteq> 0x0102"
  by (simp add: decode_sample_def load16_def bswap_16_def big_endian_host_def)

section \<open>Array indices (C10)\<close>


lemma chan_index_nonneg:
  assumes "0x30 \<le> char_value p c"
  shows "chan_index p c = (char_value p c - 0x30) mod 16"
  using assms by (simp add: chan_index_def smod_int_alt_def sgn_if)

lemma chan_index_range:
  assumes "0x30 \<le> char_value p c"
  shows "0 \<le> chan_index p c \<and> chan_index p c < 16"
  using assms by (simp add: chan_index_nonneg)

lemma stat_slot_fault:
  "stat_slot p rx first c s = Inl f \<Longrightarrow> 0 \<le> chan_index p c \<Longrightarrow> chan_index p c < 16 \<Longrightarrow> f = BufferOverrun"
  by (cases s) (auto simp add: stat_slot_def get16_def Let_def split: sum.splits if_splits)

lemma stat_pass_no_index_fault:
  assumes "\<forall>c\<in>set cs. 0x30 \<le> char_value p c"
  shows "stat_pass p rx first cs s \<noteq> Inl StatIndexOutOfRange"
  using assms
proof (induction cs arbitrary: s)
  case Nil
  then show ?case by simp
next
  case (Cons c cs)
  show ?case
  proof (cases "stat_slot p rx first c s")
    case (Inl f)
    then have "f = BufferOverrun"
      using Cons.prems chan_index_range [of p c] by (intro stat_slot_fault [of p rx first c s f]) simp_all
    then show ?thesis using Inl by simp
  next
    case (Inr s')
    then show ?thesis using Cons by simp
  qed
qed

lemma stat_loop_no_index_fault:
  assumes "\<forall>c\<in>set cs. 0x30 \<le> char_value p c"
  shows "stat_loop p rx cs i n s \<noteq> Inl StatIndexOutOfRange"
  using assms
proof (induction p rx cs i n s rule: stat_loop.induct)
  case (1 p rx channels i samples s)
  show ?case
  proof (cases "i < samples")
    case False
    then show ?thesis by (simp add: stat_loop.simps)
  next
    case True
    show ?thesis
    proof (cases "stat_pass p rx (i = 0) channels s")
      case (Inl f)
      then show ?thesis
        using True stat_pass_no_index_fault [OF "1.prems", of rx "i = 0" s]
        by (simp add: stat_loop.simps [of p rx channels i])
    next
      case (Inr s')
      then show ?thesis
        using True "1.IH" [OF True Inr "1.prems"]
        by (simp add: stat_loop.simps [of p rx channels i])
    qed
  qed
qed

lemma report_no_index_fault:
  assumes "\<forall>c\<in>set cs. 0x30 \<le> char_value p c"
  shows "snd (report p n st cs) \<noteq> Some StatIndexOutOfRange"
  using assms
proof (induction cs)
  case Nil
  then show ?case by simp
next
  case (Cons c cs)
  then show ?case
    using chan_index_range [of p c]
    by (auto simp add: report_line_def Let_def split: sum.splits prod.splits if_splits)
qed

lemma char_value_code_point:
  assumes "0x30 \<le> (of_char c :: int)" and "char_signed p \<longrightarrow> (of_char c :: int) < 128"
  shows "char_value p c = of_char c"
  using assms by (auto simp add: char_value_def)

text \<open>
  C10, as amended.  Every access to the 16-element arrays uses
  \<^verbatim>\<open>(channels[j] - 0x30) % 16\<close>.  When every character of the channel string has a
  code point of at least \<open>0x30\<close> (digits or not) and, on a host where plain \<^verbatim>\<open>char\<close>
  is signed, below \<open>0x80\<close>, that index is \<open>(c - 0x30) mod 16\<close>, it lies in
  \<open>[0, 15]\<close>, and neither the statistics loops nor the report leave the arrays.
\<close>

theorem stat_index_in_range:
  assumes "\<forall>c\<in>set channels. 0x30 \<le> (of_char c :: int) \<and> (char_signed p \<longrightarrow> (of_char c :: int) < 128)"
  shows "(\<forall>c\<in>set channels. chan_index p c = (of_char c - 0x30) mod 16
            \<and> 0 \<le> chan_index p c \<and> chan_index p c \<le> 15)
         \<and> calc_statistics p rx channels samples st0 \<noteq> Inl StatIndexOutOfRange
         \<and> snd (report p samples st channels) \<noteq> Some StatIndexOutOfRange
         \<and> snd (statistics_report p rx channels samples st0) \<noteq> Some StatIndexOutOfRange"
proof -
  have cv: "char_value p c = of_char c" if "c \<in> set channels" for c
    using assms that by (intro char_value_code_point) simp_all
  have h: "\<forall>c\<in>set channels. 0x30 \<le> char_value p c"
    using assms cv by simp
  show ?thesis
  proof (intro conjI ballI)
    fix c assume m: "c \<in> set channels"
    then have c: "0x30 \<le> char_value p c" using h by simp
    show "chan_index p c = (of_char c - 0x30) mod 16"
      using chan_index_nonneg [OF c] cv [OF m] by simp
    show "0 \<le> chan_index p c" using chan_index_range [OF c] by simp
    show "chan_index p c \<le> 15" using chan_index_range [OF c] by simp
  next
    show a: "calc_statistics p rx channels samples st0 \<noteq> Inl StatIndexOutOfRange"
      using stat_loop_no_index_fault [OF h, of rx 0 samples "(st0, 2)"]
      by (auto simp add: calc_statistics_def split: sum.splits)
    show "snd (report p samples st channels) \<noteq> Some StatIndexOutOfRange"
      using h by (rule report_no_index_fault)
    show "snd (statistics_report p rx channels samples st0) \<noteq> Some StatIndexOutOfRange"
      using a report_no_index_fault [OF h]
      by (auto simp add: statistics_report_def split: sum.splits)
  qed
qed

text \<open>A digit, an upper-case letter and a lower-case letter, with signed \<^verbatim>\<open>char\<close>.\<close>

theorem stat_index_in_range_witness:
  "(0x30 :: int) \<le> of_char CHR ''7'' \<and> (of_char CHR ''7'' :: int) < 128
   \<and> (0x30 :: int) \<le> of_char CHR ''A'' \<and> (of_char CHR ''A'' :: int) < 128
   \<and> (0x30 :: int) \<le> of_char CHR ''z'' \<and> (of_char CHR ''z'' :: int) < 128
   \<and> char_signed x86_64_linux
   \<and> chan_index x86_64_linux CHR ''7'' = 7 \<and> chan_index x86_64_linux CHR ''A'' = 1
   \<and> chan_index x86_64_linux CHR ''z'' = 10
   \<and> statistics_report x86_64_linux [0, 0, 0, 1, 0, 2, 0, 3] ''7Az'' 1 (uninitialised_arrays example_env)
       = ([Statistics 7 1 1 1 0 0, Statistics 1 2 2 2 0 0, Statistics 10 3 3 3 0 0], None)"
proof -
  have v: "(0x30 :: int) \<le> of_char CHR ''7''" "(of_char CHR ''7'' :: int) < 128"
    "(0x30 :: int) \<le> of_char CHR ''A''" "(of_char CHR ''A'' :: int) < 128"
    "(0x30 :: int) \<le> of_char CHR ''z''" "(of_char CHR ''z'' :: int) < 128"
    by simp_all
  then have h: "\<forall>c\<in>set ''7Az''. 0x30 \<le> (of_char c :: int)
                  \<and> (char_signed x86_64_linux \<longrightarrow> (of_char c :: int) < 128)"
    by simp
  have s: "char_signed x86_64_linux" by (simp add: x86_64_linux_def)
  have i: "chan_index x86_64_linux CHR ''7'' = 7" "chan_index x86_64_linux CHR ''A'' = 1"
    "chan_index x86_64_linux CHR ''z'' = 10"
    by code_simp+
  have r: "statistics_report x86_64_linux [0, 0, 0, 1, 0, 2, 0, 3] ''7Az'' 1 (uninitialised_arrays example_env)
       = ([Statistics 7 1 1 1 0 0, Statistics 1 2 2 2 0 0, Statistics 10 3 3 3 0 0], None)"
    by code_simp
  show ?thesis
    using stat_index_in_range [OF h, of "[0, 0, 0, 1, 0, 2, 0, 3]" 1 "uninitialised_arrays example_env"
        "uninitialised_arrays example_env"] v s i r
    by simp
qed

text \<open>
  C10 as stated fails where plain \<^verbatim>\<open>char\<close> is signed: the byte \<open>0xFF\<close> has code
  point 255, but \<^verbatim>\<open>channels[j]\<close> is \<open>-1\<close>, the remainder is \<open>-1\<close>, and the access is
  outside the arrays.
\<close>

theorem signed_char_index_counterexample:
  "(0x30 :: int) \<le> of_char (CHR 0xFF)
   \<and> chan_index x86_64_linux (CHR 0xFF) = - 1
   \<and> statistics_report x86_64_linux [0, 0, 0, 1] [CHR 0xFF] 1 (uninitialised_arrays example_env)
       = ([], Some StatIndexOutOfRange)
   \<and> report x86_64_linux 1 (uninitialised_arrays example_env) [CHR 0xFF]
       = ([], Some StatIndexOutOfRange)"
  by code_simp


section \<open>One slot of the statistics loop\<close>


lemma length_uninitialised [simp]:
  "length (sum_arr (uninitialised_arrays e)) = 16"
  "length (min_arr (uninitialised_arrays e)) = 16"
  "length (max_arr (uninitialised_arrays e)) = 16"
  by (simp_all add: uninitialised_arrays_def)

lemma stat_slot_ok:
  assumes "stat_slot p rx first c (st, ptr) = Inr (st', ptr')"
  shows "0 \<le> chan_index p c \<and> chan_index p c < 16 \<and> ptr' = ptr + 2
         \<and> (\<exists>w. get16 p rx ptr = Inr w)"
  using assms by (auto simp add: stat_slot_def Let_def split: sum.splits if_splits)

lemma stat_slot_index:
  assumes "stat_slot p rx first c (st, ptr) = Inr (st', ptr')"
  shows "nat (chan_index p c) < 16"
  using stat_slot_ok [OF assms] by linarith

lemma stat_slot_result:
  assumes "stat_slot p rx first c (st, ptr) = Inr (st', ptr')"
    and "get16 p rx ptr = Inr w"
    and "length (sum_arr st) = 16" "length (min_arr st) = 16" "length (max_arr st) = 16"
  shows "min_arr st' = (min_arr st)[nat (chan_index p c) :=
            (if bswap_16 w < (if first then 0xffff else min_arr st ! nat (chan_index p c))
             then bswap_16 w else (if first then 0xffff else min_arr st ! nat (chan_index p c)))]"
    and "max_arr st' = (max_arr st)[nat (chan_index p c) :=
            (if (if first then 0 else max_arr st ! nat (chan_index p c)) < bswap_16 w
             then bswap_16 w else (if first then 0 else max_arr st ! nat (chan_index p c)))]"
    and "sum_arr st' = (sum_arr st)[nat (chan_index p c) :=
            (if first then 0 else sum_arr st ! nat (chan_index p c)) + ucast (bswap_16 w)]"
proof -
  define k where "k = nat (chan_index p c)"
  have k: "k < 16" using stat_slot_index [OF assms(1)] by (simp add: k_def)
  define st1 where "st1 = (if first
                         then st\<lparr>min_arr := (min_arr st)[k := 0xffff],
                                 max_arr := (max_arr st)[k := 0],
                                 sum_arr := (sum_arr st)[k := 0]\<rparr>
                         else st)"
  define st2 where "st2 = (if bswap_16 w < min_arr st1 ! k
                         then st1\<lparr>min_arr := (min_arr st1)[k := bswap_16 w]\<rparr> else st1)"
  define st3 where "st3 = (if bswap_16 w > max_arr st2 ! k
                         then st2\<lparr>max_arr := (max_arr st2)[k := bswap_16 w]\<rparr> else st2)"
  have "stat_slot p rx first c (st, ptr)
          = Inr (st3\<lparr>sum_arr := (sum_arr st3)[k := sum_arr st3 ! k + ucast (bswap_16 w)]\<rparr>, ptr + 2)"
    unfolding st3_def st2_def st1_def k_def
    using assms(2) stat_slot_ok [OF assms(1)]
    by (simp add: stat_slot_def Let_def)
  then have st': "st' = st3\<lparr>sum_arr := (sum_arr st3)[k := sum_arr st3 ! k + ucast (bswap_16 w)]\<rparr>"
    using assms(1) by simp
  have m1: "min_arr st1 = (min_arr st)[k := (if first then 0xffff else min_arr st ! k)]"
    by (simp add: st1_def)
  have x1: "max_arr st1 = (max_arr st)[k := (if first then 0 else max_arr st ! k)]"
    by (simp add: st1_def)
  have s1: "sum_arr st1 = (sum_arr st)[k := (if first then 0 else sum_arr st ! k)]"
    by (simp add: st1_def)
  have m1k: "min_arr st1 ! k = (if first then 0xffff else min_arr st ! k)"
    using k assms(4) by (simp add: m1)
  have m2: "min_arr st2 = (min_arr st)[k := (if bswap_16 w < min_arr st1 ! k then bswap_16 w else min_arr st1 ! k)]"
    using k assms(4) by (simp add: st2_def m1)
  have x2: "max_arr st2 = max_arr st1" and s2: "sum_arr st2 = sum_arr st1"
    by (simp_all add: st2_def)
  have x1k: "max_arr st1 ! k = (if first then 0 else max_arr st ! k)"
    using k assms(5) by (simp add: x1)
  have x3: "max_arr st3 = (max_arr st)[k := (if max_arr st1 ! k < bswap_16 w then bswap_16 w else max_arr st1 ! k)]"
    using k assms(5) by (simp add: st3_def x2 x1)
  have m3: "min_arr st3 = min_arr st2" and s3: "sum_arr st3 = sum_arr st1"
    by (simp_all add: st3_def s2)
  have s1k: "sum_arr st1 ! k = (if first then 0 else sum_arr st ! k)"
    using k assms(3) by (simp add: s1)
  show "min_arr st' = (min_arr st)[nat (chan_index p c) :=
            (if bswap_16 w < (if first then 0xffff else min_arr st ! nat (chan_index p c))
             then bswap_16 w else (if first then 0xffff else min_arr st ! nat (chan_index p c)))]"
    unfolding k_def [symmetric] by (simp add: st' m3 m2 m1k)
  show "max_arr st' = (max_arr st)[nat (chan_index p c) :=
            (if (if first then 0 else max_arr st ! nat (chan_index p c)) < bswap_16 w
             then bswap_16 w else (if first then 0 else max_arr st ! nat (chan_index p c)))]"
    unfolding k_def [symmetric] by (simp add: st' x3 x1k)
  show "sum_arr st' = (sum_arr st)[nat (chan_index p c) :=
            (if first then 0 else sum_arr st ! nat (chan_index p c)) + ucast (bswap_16 w)]"
    unfolding k_def [symmetric] using k assms(3) by (simp add: st' s3 s1)
qed

lemma word16_max: "v = 0xffff" if "\<not> v < 0xffff" for v :: "16 word"
proof -
  have "65535 \<le> unat v"
    using that by (simp add: word_less_nat_alt)
  moreover have "unat v < 65536"
    using unsigned_less [of v, where ?'a = nat] by simp
  ultimately have "unat v = unat (0xffff :: 16 word)" by simp
  then show ?thesis by (simp only: word_unat_eq_iff)
qed

lemma stat_slot_first:
  assumes "stat_slot p rx True c (st, ptr) = Inr (st', ptr')"
    and "length (sum_arr st) = 16" "length (min_arr st) = 16" "length (max_arr st) = 16"
  shows "\<exists>w. get16 p rx ptr = Inr w
           \<and> min_arr st' ! nat (chan_index p c) = bswap_16 w
           \<and> max_arr st' ! nat (chan_index p c) = bswap_16 w
           \<and> sum_arr st' ! nat (chan_index p c) = ucast (bswap_16 w)"
proof -
  obtain w where w: "get16 p rx ptr = Inr w"
    using stat_slot_ok [OF assms(1)] by blast
  have k: "nat (chan_index p c) < 16" using assms(1) by (rule stat_slot_index)
  note r = stat_slot_result [OF assms(1) w assms(2,3,4)]
  have "min_arr st' ! nat (chan_index p c) = bswap_16 w"
    using k assms(3) word16_max [of "bswap_16 w"] by (simp add: r(1))
  moreover have "max_arr st' ! nat (chan_index p c) = bswap_16 w"
    using k assms(4) by (simp add: r(2) word_greater_zero_iff)
  moreover have "sum_arr st' ! nat (chan_index p c) = ucast (bswap_16 w)"
    using k assms(2) by (simp add: r(3))
  ultimately show ?thesis using w by blast
qed







section \<open>The first pass (C1)\<close>

text \<open>
  C1, as amended.  During the first sample pass (\<^verbatim>\<open>i == 0\<close>) every slot resets
  its channel's accumulators before it folds its own sample in, so after the
  slot the minimum, the maximum and the sum of that channel are that sample
  alone, whatever an earlier slot of the same channel left there.  For channels
  \<open>''00''\<close>, one sample and decoded values 50 and 150 the final statistics of
  channel 0 are therefore min = 150, max = 150, sum = 150 and average = 150.
\<close>

theorem first_pass_resets_every_slot:
  assumes slot: "stat_slot p rx True c (st, ptr) = Inr (st', ptr')"
    and len: "length (sum_arr st) = 16" "length (min_arr st) = 16" "length (max_arr st) = 16"
    and rx2: "length rx2 = 6" "decode_sample p (rx2 ! 2) (rx2 ! 3) = 50"
      "decode_sample p (rx2 ! 4) (rx2 ! 5) = 150"
  shows "(\<exists>w. get16 p rx ptr = Inr w
            \<and> min_arr st' ! nat (chan_index p c) = bswap_16 w
            \<and> max_arr st' ! nat (chan_index p c) = bswap_16 w
            \<and> sum_arr st' ! nat (chan_index p c) = ucast (bswap_16 w))
         \<and> statistics_report p rx2 ''00'' 1 (uninitialised_arrays e)
             = ([Statistics 0 150 150 150 0 0, Statistics 0 150 150 150 0 0], None)"
proof
  show "\<exists>w. get16 p rx ptr = Inr w
            \<and> min_arr st' ! nat (chan_index p c) = bswap_16 w
            \<and> max_arr st' ! nat (chan_index p c) = bswap_16 w
            \<and> sum_arr st' ! nat (chan_index p c) = ucast (bswap_16 w)"
    using slot len by (rule stat_slot_first)
  have a: "get16 p rx2 2 = Inr (load16 p (rx2 ! 2) (rx2 ! 3))"
    and b: "get16 p rx2 4 = Inr (load16 p (rx2 ! 4) (rx2 ! 5))"
    using rx2(1) by (simp_all add: get16_def)
  have v: "bswap_16 (load16 p (rx2 ! 2) (rx2 ! 3)) = 50"
    "bswap_16 (load16 p (rx2 ! 4) (rx2 ! 5)) = 150"
    using rx2(2,3) by (simp_all add: decode_sample_def)
  have ch: "chan_index p CHR ''0'' = 0"
    by (simp add: chan_index_def char_value_def)
  show "statistics_report p rx2 ''00'' 1 (uninitialised_arrays e)
             = ([Statistics 0 150 150 150 0 0, Statistics 0 150 150 150 0 0], None)"
    by (simp add: statistics_report_def calc_statistics_def stat_loop.simps stat_slot_def
        a b v ch report_line_def Let_def)
qed

text \<open>The second slot of scenario C, entered with the first slot's 50 in place.\<close>

theorem first_pass_resets_every_slot_witness:
  "stat_slot arm_linux [0, 0, 0, 50, 0, 150] True CHR ''0''
      (\<lparr>sum_arr = 50 # replicate 15 0, min_arr = 50 # replicate 15 0,
        max_arr = 50 # replicate 15 0\<rparr>, 4)
     = Inr (\<lparr>sum_arr = 150 # replicate 15 0, min_arr = 150 # replicate 15 0,
             max_arr = 150 # replicate 15 0\<rparr>, 6)
   \<and> length [0, 0, 0, 50, 0, 150 :: byte] = 6
   \<and> decode_sample arm_linux 0 50 = 50 \<and> decode_sample arm_linux 0 150 = 150
   \<and> get16 arm_linux [0, 0, 0, 50, 0, 150] 4 = Inr 0x9600 \<and> bswap_16 0x9600 = 150
   \<and> statistics_report arm_linux [0, 0, 0, 50, 0, 150] ''00'' 1 (uninitialised_arrays example_env)
       = ([Statistics 0 150 150 150 0 0, Statistics 0 150 150 150 0 0], None)"
proof -
  have slot: "stat_slot arm_linux [0, 0, 0, 50, 0, 150] True CHR ''0''
      (\<lparr>sum_arr = 50 # replicate 15 0, min_arr = 50 # replicate 15 0,
        max_arr = 50 # replicate 15 0\<rparr>, 4)
     = Inr (\<lparr>sum_arr = 150 # replicate 15 0, min_arr = 150 # replicate 15 0,
             max_arr = 150 # replicate 15 0\<rparr>, 6)"
    by code_simp
  have d: "decode_sample arm_linux ([0, 0, 0, 50, 0, 150] ! 2) ([0, 0, 0, 50, 0, 150] ! 3) = 50"
    "decode_sample arm_linux ([0, 0, 0, 50, 0, 150] ! 4) ([0, 0, 0, 50, 0, 150] ! 5) = 150"
    by code_simp+
  have g: "get16 arm_linux [0, 0, 0, 50, 0, 150] 4 = Inr 0x9600" "bswap_16 0x9600 = 150"
    by code_simp+
  show ?thesis
    using first_pass_resets_every_slot [OF slot _ _ _ _ d, of example_env] slot d g
    by simp
qed

text \<open>
  C1 as stated expects min = 50, max = 150 and sum = 200 for scenario C; the
  code yields 150, 150 and 150.
\<close>

theorem repeated_channel_counterexample:
  "map_sum id (\<lambda>st. (min_arr st ! 0, max_arr st ! 0, sum_arr st ! 0))
     (calc_statistics arm_linux [0, 0, 0, 50, 0, 150] ''00'' 1 (uninitialised_arrays example_env))
     = Inr (150, 150, 150)
   \<and> map_sum id (\<lambda>st. (min_arr st ! 0, max_arr st ! 0, sum_arr st ! 0))
     (calc_statistics arm_linux [0, 0, 0, 50, 0, 150] ''00'' 1 (uninitialised_arrays example_env))
     \<noteq> Inr (50, 150, 200)
   \<and> fst (statistics_report arm_linux [0, 0, 0, 50, 0, 150] ''00'' 1 (uninitialised_arrays example_env))
     = [Statistics 0 150 150 150 0 0, Statistics 0 150 150 150 0 0]"
  by code_simp

section \<open>Passes and the whole loop\<close>







section \<open>Minimum, average and maximum (C2)\<close>



lemma report_channels:
  assumes "report p n st cs = (lines, None)"
  shows "map reported_channel lines = map (\<lambda>c. Some (chan_index p c)) cs"
  using assms
proof (induction cs arbitrary: lines)
  case Nil
  then show ?case by simp
next
  case (Cons c cs)
  show ?case
  proof (cases "report_line p n st c")
    case (Inl f)
    then show ?thesis using Cons.prems by simp
  next
    case (Inr ev1)
    obtain evs r1 where rest: "report p n st cs = (evs, r1)" by (cases "report p n st cs")
    then have l: "lines = ev1 # evs" and r1: "r1 = None" using Cons.prems(1) Inr by simp_all
    have "reported_channel ev1 = Some (chan_index p c)"
      using Inr by (auto simp add: report_line_def Let_def split: if_splits)
    then show ?thesis using Cons.IH [of evs] rest r1 l by simp
  qed
qed







section \<open>The report (C6)\<close>

text \<open>
  C6, as amended.  The report prints one line per slot of the plan, in plan
  order: line \<open>j\<close> is about the channel of slot \<open>j\<close>, so a channel that occupies
  several slots of a pass is reported once for each of them.
\<close>

theorem report_one_line_per_slot:
  assumes "statistics_report p rx channels samples st0 = (lines, None)"
  shows "map reported_channel lines = map (\<lambda>c. Some (chan_index p c)) channels
         \<and> length lines = length channels"
proof -
  obtain st where "report p samples st channels = (lines, None)"
    using assms by (auto simp add: statistics_report_def split: sum.splits)
  then have m: "map reported_channel lines = map (\<lambda>c. Some (chan_index p c)) channels"
    by (rule report_channels)
  then have "length lines = length channels"
    by (rule map_eq_imp_length_eq)
  then show ?thesis using m by simp
qed

text \<open>Channel 1 occupies two of three slots and is reported twice.\<close>

theorem report_one_line_per_slot_witness:
  "statistics_report arm_linux [0, 0, 0, 1, 0, 2, 0, 3] ''101'' 1 (uninitialised_arrays example_env)
     = ([Statistics 1 3 3 3 0 0, Statistics 0 2 2 2 0 0, Statistics 1 3 3 3 0 0], None)
   \<and> map reported_channel [Statistics 1 3 3 3 0 0, Statistics 0 2 2 2 0 0, Statistics 1 3 3 3 0 0]
       = [Some 1, Some 0, Some 1]"
proof -
  have r: "statistics_report arm_linux [0, 0, 0, 1, 0, 2, 0, 3] ''101'' 1 (uninitialised_arrays example_env)
     = ([Statistics 1 3 3 3 0 0, Statistics 0 2 2 2 0 0, Statistics 1 3 3 3 0 0], None)"
    by code_simp
  show ?thesis using report_one_line_per_slot [OF r] r by simp
qed

text \<open>
  C6 as stated expects one line for the single distinct channel of \<open>''11''\<close>; two
  lines are printed.
\<close>

theorem report_repeats_channel_counterexample:
  "map reported_channel
     (fst (statistics_report arm_linux [0, 0, 0, 5, 0, 9] ''11'' 1 (uninitialised_arrays example_env)))
     = [Some 1, Some 1]
   \<and> remdups (map (chan_index arm_linux) ''11'') = [1]
   \<and> map reported_channel
     (fst (statistics_report arm_linux [0, 0, 0, 5, 0, 9] ''11'' 1 (uninitialised_arrays example_env)))
     \<noteq> map Some (remdups (map (chan_index arm_linux) ''11''))"
  by code_simp

section \<open>The transmit block (C8)\<close>


lemma put16_ok:
  assumes "off + 2 \<le> length buf"
  shows "\<exists>buf'. put16 p buf off w = Inr buf' \<and> length buf' = length buf
           \<and> (\<forall>i. off + 2 \<le> i \<longrightarrow> buf' ! i = buf ! i)"
  using assms by (simp add: put16_def)

lemma put16_fits:
  assumes "put16 p buf off w = Inr buf'"
  shows "off + 2 \<le> length buf \<and> length buf' = length buf"
  using assms by (auto simp add: put16_def split: if_splits)

lemma fill_pass_ok:
  assumes "ptr + 2 * length cs \<le> length buf"
  shows "\<exists>buf'. fill_pass p cs (buf, ptr) = Inr (buf', ptr + 2 * length cs)
           \<and> length buf' = length buf
           \<and> (\<forall>i. ptr + 2 * length cs \<le> i \<longrightarrow> buf' ! i = buf ! i)"
  using assms
proof (induction cs arbitrary: buf ptr)
  case Nil
  then show ?case by simp
next
  case (Cons c cs)
  have "ptr + 2 \<le> length buf" using Cons.prems by simp
  from put16_ok [OF this, of p "command_word p c"] obtain buf1 where
    put: "put16 p buf ptr (command_word p c) = Inr buf1"
    and len1: "length buf1 = length buf"
    and same1: "\<forall>i. ptr + 2 \<le> i \<longrightarrow> buf1 ! i = buf ! i"
    by blast
  have "(ptr + 2) + 2 * length cs \<le> length buf1" using Cons.prems len1 by simp
  from Cons.IH [OF this] obtain buf' where
    rest: "fill_pass p cs (buf1, ptr + 2) = Inr (buf', (ptr + 2) + 2 * length cs)"
    and len': "length buf' = length buf1"
    and same': "\<forall>i. (ptr + 2) + 2 * length cs \<le> i \<longrightarrow> buf' ! i = buf1 ! i"
    by blast
  have "fill_pass p (c # cs) (buf, ptr) = Inr (buf', ptr + 2 * length (c # cs))"
    using put rest by (simp add: add.assoc)
  moreover have "length buf' = length buf" using len' len1 by simp
  moreover have "\<forall>i. ptr + 2 * length (c # cs) \<le> i \<longrightarrow> buf' ! i = buf ! i"
    using same' same1 by simp
  ultimately show ?case by blast
qed

lemma fill_pass_fits:
  assumes "fill_pass p cs (buf, ptr) = Inr (buf', ptr')"
  shows "ptr' = ptr + 2 * length cs \<and> length buf' = length buf
         \<and> (cs \<noteq> [] \<longrightarrow> ptr' \<le> length buf)"
  using assms
proof (induction cs arbitrary: buf ptr)
  case Nil
  then show ?case by simp
next
  case (Cons c cs)
  from Cons.prems obtain buf1 where
    put: "put16 p buf ptr (command_word p c) = Inr buf1"
    and rest: "fill_pass p cs (buf1, ptr + 2) = Inr (buf', ptr')"
    by (auto split: sum.splits)
  note a = put16_fits [OF put]
  note b = Cons.IH [OF rest]
  show ?case
  proof (cases "cs = []")
    case True
    then show ?thesis using a b by simp
  next
    case False
    then show ?thesis using a b by simp
  qed
qed

lemma fill_tx_ok:
  assumes "i \<le> n" and "ptr + 2 * length cs * nat (n - i) \<le> length buf"
  shows "\<exists>buf'. fill_tx p cs i n (buf, ptr) = Inr (buf', ptr + 2 * length cs * nat (n - i))
           \<and> length buf' = length buf
           \<and> (\<forall>j. ptr + 2 * length cs * nat (n - i) \<le> j \<longrightarrow> buf' ! j = buf ! j)"
  using assms
proof (induction p cs i n "(buf, ptr)" arbitrary: buf ptr rule: fill_tx.induct)
  case (1 p channels i samples)
  show ?case
  proof (cases "i < samples")
    case False
    then have "nat (samples - i) = 0" by simp
    then show ?thesis using False by (simp add: fill_tx.simps)
  next
    case True
    then have step: "nat (samples - i) = Suc (nat (samples - (i + 1)))" by simp
    have fit1: "ptr + 2 * length channels \<le> length buf"
      using "1.prems"(2) by (simp add: step)
    from fill_pass_ok [OF fit1, of p] obtain buf1 where
      pass: "fill_pass p channels (buf, ptr) = Inr (buf1, ptr + 2 * length channels)"
      and len1: "length buf1 = length buf"
      and same1: "\<forall>j. ptr + 2 * length channels \<le> j \<longrightarrow> buf1 ! j = buf ! j"
      by blast
    have fit2: "(ptr + 2 * length channels) + 2 * length channels * nat (samples - (i + 1)) \<le> length buf1"
      using "1.prems"(2) len1 by (simp add: step)
    have le: "i + 1 \<le> samples" using True by simp
    from "1.hyps" [OF True pass le fit2] obtain buf' where
      rest: "fill_tx p channels (i + 1) samples (buf1, ptr + 2 * length channels)
               = Inr (buf', (ptr + 2 * length channels) + 2 * length channels * nat (samples - (i + 1)))"
      and len': "length buf' = length buf1"
      and same': "\<forall>j. (ptr + 2 * length channels) + 2 * length channels * nat (samples - (i + 1)) \<le> j
                   \<longrightarrow> buf' ! j = buf1 ! j"
      by blast
    have e: "(ptr + 2 * length channels) + 2 * length channels * nat (samples - (i + 1))
             = ptr + 2 * length channels * nat (samples - i)"
      by (simp add: step)
    have "fill_tx p channels i samples (buf, ptr) = Inr (buf', ptr + 2 * length channels * nat (samples - i))"
      using True pass rest unfolding e by (simp add: fill_tx.simps [of p channels i])
    moreover have "length buf' = length buf" using len' len1 by simp
    moreover have "\<forall>j. ptr + 2 * length channels * nat (samples - i) \<le> j \<longrightarrow> buf' ! j = buf ! j"
    proof (intro allI impI)
      fix j assume j: "ptr + 2 * length channels * nat (samples - i) \<le> j"
      then have "buf' ! j = buf1 ! j" using same' unfolding e by simp
      moreover have "ptr + 2 * length channels \<le> j" using j by (simp add: step)
      ultimately show "buf' ! j = buf ! j" using same1 by simp
    qed
    ultimately show ?thesis by blast
  qed
qed

lemma fill_tx_fits:
  assumes "fill_tx p cs i n (buf, ptr) = Inr (buf', ptr')" and "i \<le> n"
  shows "ptr' = ptr + 2 * length cs * nat (n - i) \<and> length buf' = length buf
         \<and> (cs \<noteq> [] \<and> i < n \<longrightarrow> ptr' \<le> length buf)"
  using assms
proof (induction p cs i n "(buf, ptr)" arbitrary: buf ptr rule: fill_tx.induct)
  case (1 p channels i samples)
  show ?case
  proof (cases "i < samples")
    case False
    then show ?thesis using "1.prems" by (simp add: fill_tx.simps)
  next
    case True
    then have step: "nat (samples - i) = Suc (nat (samples - (i + 1)))" by simp
    from "1.prems"(1) True obtain buf1 ptr1 where
      pass: "fill_pass p channels (buf, ptr) = Inr (buf1, ptr1)"
      and rest: "fill_tx p channels (i + 1) samples (buf1, ptr1) = Inr (buf', ptr')"
      by (auto simp add: fill_tx.simps [of p channels i] split: sum.splits)
    note a = fill_pass_fits [OF pass]
    have le: "i + 1 \<le> samples" using True by simp
    note b = "1.hyps" [OF True pass rest le]
    have p': "ptr' = ptr + 2 * length channels * nat (samples - i)"
      using a b by (simp add: step)
    moreover have "length buf' = length buf" using a b by simp
    moreover have "ptr' \<le> length buf" if "channels \<noteq> []"
    proof (cases "i + 1 < samples")
      case True
      then show ?thesis using a b that by simp
    next
      case False
      then have "nat (samples - (i + 1)) = 0" by simp
      then have "ptr' = ptr1" using b by simp
      then show ?thesis using a that by simp
    qed
    ultimately show ?thesis by simp
  qed
qed

lemma malloc_Some:
  "malloc p (Some junk) len = Some tx0 \<Longrightarrow>
     length tx0 = nat (to_size p len) \<and> (\<forall>i < length tx0. tx0 ! i = junk i)"
  by (auto simp add: malloc_def)

text \<open>
  C8, as amended.  For every plan that fits the block (at least one sample, the
  length within \<^verbatim>\<open>int\<close>) the builder fills the first \<open>len - 2\<close> bytes and never
  writes the trailing two: after the fill they still hold whatever the block
  that \<^verbatim>\<open>malloc\<close> returned contained.
\<close>

theorem tx_trailing_bytes_untouched:
  assumes "1 \<le> samples"
    and "int (length channels) * 2 * samples + 2 < 2147483648"
    and "malloc p (Some junk) (block_len p channels samples) = Some tx0"
  shows "int (length tx0) = block_len p channels samples
         \<and> (\<exists>tx. fill_tx p channels 0 samples (tx0, 0) = Inr (tx, length tx0 - 2)
                \<and> length tx = length tx0
                \<and> tx ! (length tx0 - 2) = junk (length tx0 - 2)
                \<and> tx ! (length tx0 - 1) = junk (length tx0 - 1))"
proof -
  define len where "len = block_len p channels samples"
  have len: "len = int (length channels) * 2 * samples + 2"
    unfolding len_def using assms(1,2) by (rule block_len_fits)
  have nn: "0 \<le> int (length channels) * 2 * samples" using assms(1) by simp
  have sz: "to_size p len = len"
    using nn assms(2) unfolding len by (intro to_size_id) linarith+
  have l0: "length tx0 = nat len" and j: "\<forall>i < length tx0. tx0 ! i = junk i"
    using malloc_Some [OF assms(3)] by (simp_all add: len_def [symmetric] sz)
  have used: "2 * length channels * nat (samples - 0) = nat len - 2"
  proof -
    define K where "K = 2 * length channels * nat samples"
    have "int K = int (length channels) * 2 * samples"
      using assms(1) by (simp add: K_def)
    then have "len = int K + 2" using len by simp
    then have "nat len = K + 2" by simp
    then show ?thesis by (simp add: K_def)
  qed
  have "2 \<le> len" using len nn by linarith
  then have two: "2 \<le> nat len" by linarith
  have fit: "0 + 2 * length channels * nat (samples - 0) \<le> length tx0"
    using used l0 by simp
  have "0 \<le> samples" using assms(1) by simp
  from fill_tx_ok [OF this fit, of p] obtain tx where
    fill: "fill_tx p channels 0 samples (tx0, 0) = Inr (tx, 0 + 2 * length channels * nat (samples - 0))"
    and lt: "length tx = length tx0"
    and same: "\<forall>j. 0 + 2 * length channels * nat (samples - 0) \<le> j \<longrightarrow> tx ! j = tx0 ! j"
    by blast
  have e: "0 + 2 * length channels * nat (samples - 0) = length tx0 - 2"
    using used l0 by simp
  have "tx ! (length tx0 - 2) = tx0 ! (length tx0 - 2)"
    and "tx ! (length tx0 - 1) = tx0 ! (length tx0 - 1)"
    using same unfolding e by simp_all
  moreover have "tx0 ! (length tx0 - 2) = junk (length tx0 - 2)"
    and "tx0 ! (length tx0 - 1) = junk (length tx0 - 1)"
    using j l0 two by simp_all
  moreover have "int (length tx0) = len" using l0 two by simp
  ultimately show ?thesis
    using fill lt unfolding e len_def by auto
qed

text \<open>Two channels, one sample, on a heap full of \<open>0xAA\<close>.\<close>

theorem tx_trailing_bytes_untouched_witness:
  "(1::int) \<le> 1 \<and> int (length ''01'') * 2 * 1 + 2 < 2147483648
   \<and> malloc arm_linux (Some (\<lambda>k. 0xAA)) (block_len arm_linux ''01'' 1)
       = Some [0xAA, 0xAA, 0xAA, 0xAA, 0xAA, 0xAA]
   \<and> fill_tx arm_linux ''01'' 0 1 ([0xAA, 0xAA, 0xAA, 0xAA, 0xAA, 0xAA], 0)
       = Inr ([0, 0, 8, 0, 0xAA, 0xAA], 4)"
proof -
  have m: "malloc arm_linux (Some (\<lambda>k. 0xAA)) (block_len arm_linux ''01'' 1)
       = Some [0xAA, 0xAA, 0xAA, 0xAA, 0xAA, 0xAA]"
    by code_simp
  have f: "fill_tx arm_linux ''01'' 0 1 ([0xAA, 0xAA, 0xAA, 0xAA, 0xAA, 0xAA], 0)
       = Inr ([0, 0, 8, 0, 0xAA, 0xAA], 4)"
    by code_simp
  show ?thesis
    using tx_trailing_bytes_untouched [OF _ _ m] m f by simp
qed

text \<open>
  C8 as stated expects zeros in the trailing two bytes; the block is not
  cleared, so on a heap full of \<open>0xAA\<close> they are \<open>0xAA\<close>.
\<close>

theorem tx_trailing_bytes_counterexample:
  "malloc arm_linux (Some (\<lambda>k. 0xAA)) (block_len arm_linux ''0'' 1) = Some [0xAA, 0xAA, 0xAA, 0xAA]
   \<and> fill_tx arm_linux ''0'' 0 1 ([0xAA, 0xAA, 0xAA, 0xAA], 0) = Inr ([0, 0, 0xAA, 0xAA], 2)
   \<and> ([0, 0, 0xAA, 0xAA] :: byte list) ! 2 \<noteq> 0
   \<and> ([0, 0, 0xAA, 0xAA] :: byte list) ! 3 \<noteq> 0"
  by code_simp

section \<open>Unvalidated plans (C4)\<close>


lemma fill_tx_empty: "fill_tx p [] i n s = Inr s"
proof (induction p "[] :: string" i n s rule: fill_tx.induct)
  case (1 p i samples s)
  then show ?case
    by (cases s) (simp add: fill_tx.simps [of p "[]" i])
qed

lemma stat_loop_empty: "stat_loop p rx [] i n s = Inr s"
proof (induction p rx "[] :: string" i n s rule: stat_loop.induct)
  case (1 p rx i samples s)
  then show ?case
    by (simp add: stat_loop.simps [of p rx "[]" i])
qed

lemma block_len_empty: "block_len p [] n = 2"
  by (cases "data_model p") (simp_all add: block_len_def to_size_def to_int32_def)

lemma malloc_two: "malloc p (Some junk) 2 = Some [junk 0, junk 1]"
proof -
  have "to_size p 2 = 2" by (rule to_size_id) simp_all
  moreover have "[0..<2] = [0, 1]" by (simp add: upt_rec)
  ultimately show ?thesis by (simp add: malloc_def)
qed

lemma fill_tx_none: "\<not> i < n \<Longrightarrow> fill_tx p cs i n s = Inr s"
  by (simp add: fill_tx.simps)

lemma fill_tx_succeeds:
  assumes "1 \<le> samples"
    and "int (length channels) * 2 * samples + 2 < 2147483648"
    and "malloc p (Some junk) (block_len p channels samples) = Some tx0"
  shows "\<exists>tx ptr. fill_tx p channels 0 samples (tx0, 0) = Inr (tx, ptr)"
proof -
  define len where "len = block_len p channels samples"
  have len: "len = int (length channels) * 2 * samples + 2"
    unfolding len_def using assms(1,2) by (rule block_len_fits)
  have nn: "0 \<le> int (length channels) * 2 * samples" using assms(1) by simp
  have sz: "to_size p len = len"
    using nn assms(2) unfolding len by (intro to_size_id) linarith+
  have l0: "length tx0 = nat len"
    using malloc_Some [OF assms(3)] by (simp add: len_def [symmetric] sz)
  define K where "K = 2 * length channels * nat samples"
  have "int K = int (length channels) * 2 * samples"
    using assms(1) by (simp add: K_def)
  then have "len = int K + 2" using len by simp
  then have "nat len = K + 2" by simp
  then have fit: "0 + 2 * length channels * nat (samples - 0) \<le> length tx0"
    using l0 by (simp add: K_def)
  have "0 \<le> samples" using assms(1) by simp
  from fill_tx_ok [OF this fit, of p] show ?thesis by blast
qed

lemma persist_prefix: "\<exists>rest. fst (persist p e g len rx ret evs) = evs @ rest"
  by (simp add: persist_def Let_def split: option.splits)

lemma process_prefix: "\<exists>rest. fst (process p e g len rx evs) = evs @ rest"
proof -
  obtain lines r where sr: "statistics_report p rx (g_channels g) (g_samples g) (uninitialised_arrays e) = (lines, r)"
    by (cases "statistics_report p rx (g_channels g) (g_samples g) (uninitialised_arrays e)")
  show ?thesis
  proof (cases r)
    case None
    obtain rest where "fst (persist p e g len rx (ioctl_message e) (evs @ lines)) = (evs @ lines) @ rest"
      using persist_prefix by blast
    then show ?thesis using sr None by (simp add: process_def)
  next
    case (Some f)
    then show ?thesis using sr by (simp add: process_def)
  qed
qed

lemma acquire_reaches_exchange:
  assumes heap: "tx_heap e = Some txj" "rx_heap e = Some rxj"
    and fill: "fill_tx p (g_channels g) 0 (g_samples g)
                 (map txj [0..<nat (to_size p (block_len p (g_channels g) (g_samples g)))], 0) = Inr (tx, ptr)"
  shows "\<exists>rest. fst (acquire p e g)
           = [PrintSpeed (g_speed g),
              PrintStart (block_len p (g_channels g) (g_samples g)) (length (g_channels g)) (g_samples g),
              SpiMessage (word_of_int (block_len p (g_channels g) (g_samples g))) tx] @ rest"
    and "ioctl_message e < 1 \<Longrightarrow> snd (acquire p e g) = Abort CantSendSpiMessage"
proof -
  define ev2 where "ev2 = [PrintSpeed (g_speed g),
              PrintStart (block_len p (g_channels g) (g_samples g)) (length (g_channels g)) (g_samples g),
              SpiMessage (word_of_int (block_len p (g_channels g) (g_samples g))) tx]"
  define rx where "rx = map (received e) [0..<length (map rxj [0..<nat (to_size p (block_len p (g_channels g) (g_samples g)))])]"
  have acq: "acquire p e g =
      (if ioctl_message e < 1 then (ev2, Abort CantSendSpiMessage)
       else if elapsed e = 0 then (ev2, Crash DivideByZero)
       else process p e g (block_len p (g_channels g) (g_samples g)) rx (ev2 @ [PrintRate]))"
    using fill by (simp add: acquire_def malloc_def heap Let_def ev2_def rx_def)
  obtain rest where pr: "fst (process p e g (block_len p (g_channels g) (g_samples g)) rx (ev2 @ [PrintRate]))
       = (ev2 @ [PrintRate]) @ rest"
    using process_prefix by blast
  have "\<exists>rest. fst (acquire p e g) = ev2 @ rest"
    using pr by (simp add: acq)
  then show "\<exists>rest. fst (acquire p e g)
           = [PrintSpeed (g_speed g),
              PrintStart (block_len p (g_channels g) (g_samples g)) (length (g_channels g)) (g_samples g),
              SpiMessage (word_of_int (block_len p (g_channels g) (g_samples g))) tx] @ rest"
    by (simp add: ev2_def)
  show "ioctl_message e < 1 \<Longrightarrow> snd (acquire p e g) = Abort CantSendSpiMessage"
    by (simp add: acq)
qed

text \<open>
  C4, as amended.  \<^verbatim>\<open>parse_opts\<close> validates nothing: every channel string (empty
  or with characters that are not digits) and every sample count (also below 1)
  is stored as given, and no error is raised for them.  When the device opens
  and both allocations succeed, \<^verbatim>\<open>main\<close> sizes the block from them and reaches the
  exchange, for every channel string with every sample count below 1 and with
  every sample count from 1 on whose block length fits an \<^verbatim>\<open>int\<close>.  With an empty
  channel string the block has 2 bytes and, when the exchange succeeds, \<^verbatim>\<open>main\<close>
  returns normally.
\<close>

theorem no_plan_validation:
  assumes args: "getopt_results e = [(CHR ''C'', cs), (CHR ''S'', n)]"
    and dev: "device_setup e = Inr speed"
    and heap: "tx_heap e = Some txj" "rx_heap e = Some rxj"
    and fits: "to_int32 (atoi e n) < 1
               \<or> int (length cs) * 2 * to_int32 (atoi e n) + 2 < 2147483648"
  shows "parse_opts (atoi e) (getopt_results e) initial_globals
           = Inr (initial_globals\<lparr>g_channels := cs, g_samples := to_int32 (atoi e n)\<rparr>)
         \<and> (\<exists>tx rest. fst (main p e)
                = [PrintSpeed speed,
                   PrintStart (block_len p cs (to_int32 (atoi e n))) (length cs) (to_int32 (atoi e n)),
                   SpiMessage (word_of_int (block_len p cs (to_int32 (atoi e n)))) tx] @ rest)
         \<and> (ioctl_message e < 1 \<longrightarrow> snd (main p e) = Abort CantSendSpiMessage)
         \<and> (cs = [] \<and> 1 \<le> ioctl_message e \<and> elapsed e \<noteq> 0 \<longrightarrow>
              main p e = ([PrintSpeed speed, PrintStart 2 0 (to_int32 (atoi e n)),
                           SpiMessage 2 [txj 0, txj 1], PrintRate],
                          Return (ioctl_message e)))"
proof (intro conjI impI)
  define N where "N = to_int32 (atoi e n)"
  define g where "g = initial_globals\<lparr>g_channels := cs, g_samples := N, g_speed := speed\<rparr>"
  show a: "parse_opts (atoi e) (getopt_results e) initial_globals
           = Inr (initial_globals\<lparr>g_channels := cs, g_samples := to_int32 (atoi e n)\<rparr>)"
    by (simp add: args)
  have b: "main p e = acquire p e g"
    by (simp add: main_def a dev g_def N_def)
  have g: "g_channels g = cs" "g_samples g = N" "g_speed g = speed"
    by (simp_all add: g_def)
  define tx0 where "tx0 = map txj [0..<nat (to_size p (block_len p cs N))]"
  have m: "malloc p (Some txj) (block_len p cs N) = Some tx0"
    by (simp add: malloc_def tx0_def)
  have "\<exists>tx ptr. fill_tx p cs 0 N (tx0, 0) = Inr (tx, ptr)"
  proof (cases "N < 1")
    case True
    then have "\<not> 0 < N" by simp
    then show ?thesis using fill_tx_none [of 0 N p cs "(tx0, 0)"] by simp
  next
    case False
    then have "1 \<le> N" and "int (length cs) * 2 * N + 2 < 2147483648"
      using fits by (simp_all add: N_def)
    then show ?thesis using m by (rule fill_tx_succeeds)
  qed
  then obtain tx ptr where fill: "fill_tx p (g_channels g) 0 (g_samples g)
      (map txj [0..<nat (to_size p (block_len p (g_channels g) (g_samples g)))], 0) = Inr (tx, ptr)"
    by (auto simp add: g tx0_def)
  note r = acquire_reaches_exchange [OF heap fill]
  show "\<exists>tx rest. fst (main p e)
                = [PrintSpeed speed,
                   PrintStart (block_len p cs (to_int32 (atoi e n))) (length cs) (to_int32 (atoi e n)),
                   SpiMessage (word_of_int (block_len p cs (to_int32 (atoi e n)))) tx] @ rest"
    using r(1) unfolding b g N_def by blast
  show "snd (main p e) = Abort CantSendSpiMessage" if "ioctl_message e < 1"
    using r(2) that by (simp add: b)
  assume "cs = [] \<and> 1 \<le> ioctl_message e \<and> elapsed e \<noteq> 0"
  then show "main p e = ([PrintSpeed speed, PrintStart 2 0 (to_int32 (atoi e n)),
                           SpiMessage 2 [txj 0, txj 1], PrintRate],
                          Return (ioctl_message e))"
    by (simp add: b g_def N_def acquire_def block_len_empty heap malloc_two fill_tx_empty process_def
        statistics_report_def calc_statistics_def stat_loop_empty persist_def
        initial_globals_def)
qed

text \<open>\<^verbatim>\<open>-C x -S 0\<close>: the exchange is made, and the run ends in the report's division.\<close>

theorem no_plan_validation_witness:
  "getopt_results env_zero_count = [(CHR ''C'', ''x''), (CHR ''S'', ''0'')]
   \<and> device_setup env_zero_count = Inr 400000
   \<and> to_int32 (atoi env_zero_count ''0'') = 0
   \<and> main arm_linux env_zero_count
       = ([PrintSpeed 400000, PrintStart 2 1 0, SpiMessage 2 [0xAA, 0xAA], PrintRate],
          Crash DivideByZero)"
proof -
  have o: "getopt_results env_zero_count = [(CHR ''C'', ''x''), (CHR ''S'', ''0'')]"
    by (simp add: env_zero_count_def)
  have s: "device_setup env_zero_count = Inr 400000"
    by (simp add: device_setup_def env_zero_count_def example_env_def)
  have h: "tx_heap env_zero_count = Some (\<lambda>k. 0xAA)" "rx_heap env_zero_count = Some (\<lambda>k. 0xAA)"
    by (simp_all add: env_zero_count_def example_env_def)
  have z: "to_int32 (atoi env_zero_count ''0'') = 0"
    by (simp add: env_zero_count_def example_env_def to_int32_def is_space_def is_digit_def)
  then have f: "to_int32 (atoi env_zero_count ''0'') < 1
               \<or> int (length ''x'') * 2 * to_int32 (atoi env_zero_count ''0'') + 2 < 2147483648"
    by simp
  have m: "main arm_linux env_zero_count
       = ([PrintSpeed 400000, PrintStart 2 1 0, SpiMessage 2 [0xAA, 0xAA], PrintRate],
          Crash DivideByZero)"
    by code_simp
  show ?thesis
    using no_plan_validation [OF o s h f, of arm_linux] o s z m
    by simp
qed

text \<open>
  C4 as stated expects a failure for an empty channel string, for a character
  that is not a digit and for a sample count below 1; each is accepted.
\<close>

theorem plan_validation_counterexample:
  "main arm_linux env_empty_plan
     = ([PrintSpeed 400000, PrintStart 2 0 0, SpiMessage 2 [0xAA, 0xAA], PrintRate], Return 2)
   \<and> main arm_linux env_nondigit_plan
     = ([PrintSpeed 400000, PrintStart 4 1 1, SpiMessage 4 [64, 2, 0xAA, 0xAA], PrintRate,
         Statistics 8 0 0 0 0 0], Return 4)
   \<and> parse_opts c_atoi [(CHR ''C'', ''x'')] initial_globals
     = Inr (initial_globals\<lparr>g_channels := ''x''\<rparr>)
   \<and> parse_opts c_atoi [(CHR ''S'', ''-3'')] initial_globals
     = Inr (initial_globals\<lparr>g_samples := - 3\<rparr>)"
  by code_simp

section \<open>The exchange and the return value (C3, C9)\<close>


lemma persist_cases:
  assumes "persist p e g len rx ret evs = (evs', out)"
  shows "(g_output_file g = None \<and> out = Return ret \<and> evs' = evs)
         \<or> (\<exists>name. g_output_file g = Some name
               \<and> (out = Abort CouldNotOpenOutputFile \<or> out = Abort NotAllBytesWritten
                    \<or> (out = Return (write_result e) \<and> write_result e = to_int32 (len - 2))))"
  using assms by (auto simp add: persist_def Let_def split: option.splits if_splits)

lemma acquire_failed_transfer:
  assumes "ioctl_message e < 1"
  shows "(\<forall>r. snd (acquire p e g) \<noteq> Return r)
         \<and> \<not> list_ex is_statistics (fst (acquire p e g))
         \<and> \<not> list_ex is_file_output (fst (acquire p e g))
         \<and> ((\<exists>n tx. SpiMessage n tx \<in> set (fst (acquire p e g)))
              \<longrightarrow> snd (acquire p e g) = Abort CantSendSpiMessage)"
  using assms
  by (auto simp add: acquire_def Let_def list_ex_iff split: option.splits sum.splits prod.splits)

text \<open>
  C3, as amended.  Whenever the exchange returns less than 1 (\<^verbatim>\<open>ret < 1\<close>, the
  only test made on it), the program does not return: it aborts with
  "Can't send spi message" if it got as far as the exchange, no statistics line
  is printed and the output file is neither opened nor written.
\<close>

theorem failed_transfer_aborts:
  assumes "ioctl_message e < 1"
  shows "(\<forall>r. snd (main p e) \<noteq> Return r)
         \<and> \<not> list_ex is_statistics (fst (main p e))
         \<and> \<not> list_ex is_file_output (fst (main p e))
         \<and> ((\<exists>n tx. SpiMessage n tx \<in> set (fst (main p e)))
              \<longrightarrow> snd (main p e) = Abort CantSendSpiMessage)"
proof (cases "parse_opts (atoi e) (getopt_results e) initial_globals")
  case (Inl code)
  then show ?thesis by (simp add: main_def)
next
  case (Inr g)
  show ?thesis
  proof (cases "device_setup e")
    case (Inl a)
    then show ?thesis using Inr by (simp add: main_def)
  next
    case (Inr speed)
    have "main p e = acquire p e (g\<lparr>g_speed := speed\<rparr>)"
      using Inr \<open>parse_opts (atoi e) (getopt_results e) initial_globals = Inr g\<close>
      by (simp add: main_def)
    then show ?thesis
      using acquire_failed_transfer [OF assms, of p "g\<lparr>g_speed := speed\<rparr>"] by simp
  qed
qed

text \<open>The default plan with an output file, and an exchange that returns 0.\<close>

theorem failed_transfer_aborts_witness:
  "ioctl_message env_failed_exchange < 1
   \<and> main arm_linux env_failed_exchange
       = ([PrintSpeed 400000, PrintStart 18 8 1,
           SpiMessage 18 [0, 0, 8, 0, 16, 0, 24, 0, 32, 0, 40, 0, 48, 0, 56, 0, 0xAA, 0xAA]],
          Abort CantSendSpiMessage)"
proof -
  have a: "ioctl_message env_failed_exchange < 1"
    by (simp add: env_failed_exchange_def)
  have m: "main arm_linux env_failed_exchange
       = ([PrintSpeed 400000, PrintStart 18 8 1,
           SpiMessage 18 [0, 0, 8, 0, 16, 0, 24, 0, 32, 0, 40, 0, 48, 0, 56, 0, 0xAA, 0xAA]],
          Abort CantSendSpiMessage)"
    by code_simp
  show ?thesis
    using failed_transfer_aborts [OF a, of arm_linux] a m by simp
qed

text \<open>
  C3 as stated fails for a short count that is at least 1: the exchange of the
  18-byte block returns 5, and the program prints the statistics, writes the
  file and returns.
\<close>

theorem short_transfer_counterexample:
  "block_len arm_linux ''01234567'' 1 = 18
   \<and> ioctl_message env_short_exchange = 5
   \<and> main arm_linux env_short_exchange
       = ([PrintSpeed 400000, PrintStart 18 8 1,
           SpiMessage 18 [0, 0, 8, 0, 16, 0, 24, 0, 32, 0, 40, 0, 48, 0, 56, 0, 0xAA, 0xAA],
           PrintRate,
           Statistics 0 0 0 0 0 0, Statistics 1 0 0 0 0 0, Statistics 2 0 0 0 0 0,
           Statistics 3 0 0 0 0 0, Statistics 4 0 0 0 0 0, Statistics 5 0 0 0 0 0,
           Statistics 6 0 0 0 0 0, Statistics 7 0 0 0 0 0,
           OpenOutput ''out.bin'',
           WriteOutput [0, 0, 0, 0, 0, 0, 0, 0, 0, 0, 0, 0, 0, 0, 0, 0] 16,
           PrintWritten ''out.bin''],
          Return 16)"
  by code_simp

lemma acquire_Return:
  assumes "acquire p e g = (evs, Return r)"
  shows "\<exists>tx0 tx ptr.
           malloc p (tx_heap e) (block_len p (g_channels g) (g_samples g)) = Some tx0
           \<and> fill_tx p (g_channels g) 0 (g_samples g) (tx0, 0) = Inr (tx, ptr)
           \<and> 1 \<le> ioctl_message e
           \<and> ((g_output_file g = None \<and> r = ioctl_message e)
               \<or> (\<exists>name. g_output_file g = Some name \<and> r = write_result e
                     \<and> r = to_int32 (block_len p (g_channels g) (g_samples g) - 2)))"
  using assms
  by (auto simp add: acquire_def process_def Let_def
      split: option.splits sum.splits prod.splits if_splits dest!: persist_cases)

lemma to_int32_zero:
  assumes "- 2147483648 \<le> x" "x < 2147483648" "to_int32 (x - 2) = 0"
  shows "x = 2"
proof -
  define y where "y = x + 2147483646"
  have "x - 2 + 2147483648 = y" by (simp add: y_def)
  then have "to_int32 (x - 2) = y mod 4294967296 - 2147483648"
    by (simp only: to_int32_def)
  then have m: "y mod 4294967296 = 2147483648"
    using assms(3) by linarith
  show ?thesis
  proof (cases "0 \<le> y")
    case True
    moreover have "y < 4294967296" using assms(2) by (simp add: y_def)
    ultimately have "y mod 4294967296 = y" by simp
    then show ?thesis using m by (simp add: y_def)
  next
    case False
    then have "0 \<le> y + 4294967296" "y + 4294967296 < 4294967296"
      using assms(1) by (simp_all add: y_def)
    then have "(y + 4294967296) mod 4294967296 = y + 4294967296"
      by (rule mod_pos_pos_trivial)
    then have "y mod 4294967296 = y + 4294967296" by simp
    then show ?thesis using m assms(1) by (simp add: y_def)
  qed
qed

lemma block_len_range:
  "- 2147483648 \<le> block_len p cs n \<and> block_len p cs n < 2147483648"
  unfolding block_len_def by (rule to_int32_range)

lemma block_len_single: "block_len p [c] 1 = 4"
  using block_len_fits [of 1 "[c]" p] by simp

lemma main_return_value:
  assumes run: "main p e = (evs, Return r)"
    and args: "parse_opts (atoi e) (getopt_results e) initial_globals = Inr g"
    and plan: "g_channels g \<noteq> []" "1 \<le> g_samples g"
  shows "(g_output_file g = None \<longrightarrow> r = ioctl_message e)
         \<and> (g_output_file g \<noteq> None \<longrightarrow>
               r = write_result e
               \<and> r = to_int32 (block_len p (g_channels g) (g_samples g) - 2)
               \<and> (- 2147483646 \<le> block_len p (g_channels g) (g_samples g)
                    \<longrightarrow> r = block_len p (g_channels g) (g_samples g) - 2))
         \<and> r \<noteq> 0"
proof -
  define len where "len = block_len p (g_channels g) (g_samples g)"
  obtain speed where "device_setup e = Inr speed"
    using run args by (cases "device_setup e") (simp_all add: main_def)
  then have acq: "acquire p e (g\<lparr>g_speed := speed\<rparr>) = (evs, Return r)"
    using run args by (simp add: main_def)
  from acquire_Return [OF acq] obtain tx0 tx ptr where
    alloc: "malloc p (tx_heap e) len = Some tx0"
    and fill: "fill_tx p (g_channels g) 0 (g_samples g) (tx0, 0) = Inr (tx, ptr)"
    and xfer: "1 \<le> ioctl_message e"
    and ret: "(g_output_file g = None \<and> r = ioctl_message e)
               \<or> (\<exists>name. g_output_file g = Some name \<and> r = write_result e
                     \<and> r = to_int32 (len - 2))"
    by (auto simp add: len_def)
  have range: "- 2147483648 \<le> len" "len < 2147483648"
    using block_len_range [of p "g_channels g" "g_samples g"] by (simp_all add: len_def)
  have nz: "r \<noteq> 0" if w: "r = to_int32 (len - 2)"
  proof
    assume "r = 0"
    then have l2: "len = 2" using w range by (intro to_int32_zero) simp_all
    obtain junk where "tx_heap e = Some junk"
      using alloc by (cases "tx_heap e") (simp_all add: malloc_def)
    then have "length tx0 = nat (to_size p 2)"
      using alloc l2 by (auto simp add: malloc_def)
    moreover have "to_size p 2 = 2" by (rule to_size_id) simp_all
    ultimately have l0: "length tx0 = 2" by simp
    have "0 \<le> g_samples g" "0 < g_samples g" using plan(2) by simp_all
    then have "ptr = 0 + 2 * length (g_channels g) * nat (g_samples g - 0)" and "ptr \<le> length tx0"
      using fill_tx_fits [OF fill] plan(1) by simp_all
    then have "length (g_channels g) * nat (g_samples g) \<le> 1" using l0 by simp
    moreover have "1 \<le> length (g_channels g)" using plan(1) by (cases "g_channels g") simp_all
    moreover have "1 \<le> nat (g_samples g)" using plan(2) by simp
    ultimately have "length (g_channels g) = 1 \<and> nat (g_samples g) = 1"
      by (metis One_nat_def le_antisym mult_le_mono1 mult_le_mono2 nat_mult_1 nat_mult_1_right le_trans)
    then obtain c where "g_channels g = [c]" and "g_samples g = 1"
      using plan(2) by (cases "g_channels g") auto
    then have "len = 4" by (simp add: len_def block_len_single)
    then show False using l2 by simp
  qed
  have exact: "to_int32 (len - 2) = len - 2" if "- 2147483646 \<le> len"
    using that range by (intro to_int32_id) simp_all
  show ?thesis
    using ret xfer nz exact unfolding len_def [symmetric] by auto
qed

text \<open>
  C9, as amended.  On every run of \<^verbatim>\<open>main\<close> that reaches \<^verbatim>\<open>return ret\<close>, for a plan
  with at least one channel and a sample count of at least 1, the value
  returned is the last byte count: the result of the exchange when no output
  file is given, and the result of \<^verbatim>\<open>write\<close>, which equals \<^verbatim>\<open>len-2\<close>, when one is.
  That value is not zero.  The exit status of the process is its low eight
  bits, so it is non-zero exactly when the byte count is not a multiple of 256.
\<close>

theorem main_returns_byte_count:
  assumes run: "main p e = (evs, Return r)"
    and args: "parse_opts (atoi e) (getopt_results e) initial_globals = Inr g"
    and plan: "g_channels g \<noteq> []" "1 \<le> g_samples g"
  shows "(g_output_file g = None \<longrightarrow> r = ioctl_message e)
         \<and> (g_output_file g \<noteq> None \<longrightarrow>
               r = write_result e
               \<and> r = to_int32 (block_len p (g_channels g) (g_samples g) - 2)
               \<and> (- 2147483646 \<le> block_len p (g_channels g) (g_samples g)
                    \<longrightarrow> r = block_len p (g_channels g) (g_samples g) - 2))
         \<and> r \<noteq> 0
         \<and> (exit_status r \<noteq> 0 \<longleftrightarrow> \<not> 256 dvd r)
         \<and> 0 \<le> exit_status r \<and> exit_status r < 256"
proof -
  have "(exit_status r \<noteq> 0 \<longleftrightarrow> \<not> 256 dvd r) \<and> 0 \<le> exit_status r \<and> exit_status r < 256"
    by (simp add: exit_status_def dvd_eq_mod_eq_0)
  moreover note main_return_value [OF run args plan]
  ultimately show ?thesis by blast
qed


text \<open>The default plan, with an output file (16) and without one (18).\<close>

theorem main_returns_byte_count_witness:
  "main arm_linux env_output_file
     = ([PrintSpeed 400000, PrintStart 18 8 1,
           SpiMessage 18 [0, 0, 8, 0, 16, 0, 24, 0, 32, 0, 40, 0, 48, 0, 56, 0, 0xAA, 0xAA],
           PrintRate,
           Statistics 0 0 0 0 0 0, Statistics 1 0 0 0 0 0, Statistics 2 0 0 0 0 0,
           Statistics 3 0 0 0 0 0, Statistics 4 0 0 0 0 0, Statistics 5 0 0 0 0 0,
           Statistics 6 0 0 0 0 0, Statistics 7 0 0 0 0 0,
           OpenOutput ''out.bin'',
           WriteOutput [0, 0, 0, 0, 0, 0, 0, 0, 0, 0, 0, 0, 0, 0, 0, 0] 16,
           PrintWritten ''out.bin''],
          Return 16)
   \<and> parse_opts c_atoi [(CHR ''o'', ''out.bin'')] initial_globals
       = Inr (initial_globals\<lparr>g_output_file := Some ''out.bin''\<rparr>)
   \<and> g_channels initial_globals = ''01234567'' \<and> g_samples initial_globals = 1
   \<and> block_len arm_linux ''01234567'' 1 = 18
   \<and> main arm_linux example_env
       = ([PrintSpeed 400000, PrintStart 18 8 1,
           SpiMessage 18 [0, 0, 8, 0, 16, 0, 24, 0, 32, 0, 40, 0, 48, 0, 56, 0, 0xAA, 0xAA],
           PrintRate,
           Statistics 0 0 0 0 0 0, Statistics 1 0 0 0 0 0, Statistics 2 0 0 0 0 0,
           Statistics 3 0 0 0 0 0, Statistics 4 0 0 0 0 0, Statistics 5 0 0 0 0 0,
           Statistics 6 0 0 0 0 0, Statistics 7 0 0 0 0 0],
          Return 18)
   \<and> ioctl_message example_env = 18
   \<and> exit_status 16 = 16"
proof -
  let ?e = "env_output_file"
  let ?g = "initial_globals\<lparr>g_output_file := Some ''out.bin''\<rparr>"
  have m: "main arm_linux ?e
     = ([PrintSpeed 400000, PrintStart 18 8 1,
           SpiMessage 18 [0, 0, 8, 0, 16, 0, 24, 0, 32, 0, 40, 0, 48, 0, 56, 0, 0xAA, 0xAA],
           PrintRate,
           Statistics 0 0 0 0 0 0, Statistics 1 0 0 0 0 0, Statistics 2 0 0 0 0 0,
           Statistics 3 0 0 0 0 0, Statistics 4 0 0 0 0 0, Statistics 5 0 0 0 0 0,
           Statistics 6 0 0 0 0 0, Statistics 7 0 0 0 0 0,
           OpenOutput ''out.bin'',
           WriteOutput [0, 0, 0, 0, 0, 0, 0, 0, 0, 0, 0, 0, 0, 0, 0, 0] 16,
           PrintWritten ''out.bin''],
          Return 16)"
    by code_simp
  have a: "parse_opts (atoi ?e) (getopt_results ?e) initial_globals = Inr ?g"
    by (simp add: env_output_file_def example_env_def)
  have c: "g_channels ?g \<noteq> []" "1 \<le> g_samples ?g"
    by (simp_all add: initial_globals_def)
  have m2: "main arm_linux example_env
       = ([PrintSpeed 400000, PrintStart 18 8 1,
           SpiMessage 18 [0, 0, 8, 0, 16, 0, 24, 0, 32, 0, 40, 0, 48, 0, 56, 0, 0xAA, 0xAA],
           PrintRate,
           Statistics 0 0 0 0 0 0, Statistics 1 0 0 0 0 0, Statistics 2 0 0 0 0 0,
           Statistics 3 0 0 0 0 0, Statistics 4 0 0 0 0 0, Statistics 5 0 0 0 0 0,
           Statistics 6 0 0 0 0 0, Statistics 7 0 0 0 0 0],
          Return 18)"
    by code_simp
  have b: "block_len arm_linux ''01234567'' 1 = 18" by code_simp
  have rest: "g_channels initial_globals = ''01234567''" "g_samples initial_globals = 1"
    "ioctl_message example_env = 18"
    "parse_opts c_atoi [(CHR ''o'', ''out.bin'')] initial_globals = Inr ?g"
    by (simp_all add: initial_globals_def example_env_def)
  have x: "exit_status 16 = 16" by (simp add: exit_status_def)
  show ?thesis
    using main_returns_byte_count [OF m a c] m m2 b rest x by simp
qed

text \<open>
  C9 as stated fails in two ways.  With \<^verbatim>\<open>-C 0 -S 127\<close> the block has 256 bytes,
  \<^verbatim>\<open>main\<close> returns 256 and the exit status is 0.  With a negative sample count
  (\<^verbatim>\<open>-C 01 -S -1073741824 -o out.bin\<close>) the length wraps to 2, \<^verbatim>\<open>write\<close> is asked
  for 0 bytes, and \<^verbatim>\<open>main\<close> itself returns 0.
\<close>

theorem exit_status_zero_counterexample:
  "block_len arm_linux ''0'' 127 = 256
   \<and> snd (main arm_linux env_256) = Return 256
   \<and> exit_status 256 = 0
   \<and> snd (main arm_linux env_negative_count) = Return 0"
  by code_simp

end
